theory Spec2Isabelle
  imports Main "HOL-Library.Multiset"
begin

section \<open>Strings\<close>

text \<open>
  A JavaScript string is modelled as a list of code units below 256 (\<^typ>\<open>char\<close>), the
  Latin-1 part of UTF-16. On that range the white space class of \<open>\s\<close> and of
  \<open>trim()\<close> is TAB, LF, VT, FF, CR, SPACE and NBSP, and \<open>toLowerCase()\<close> maps
  \<open>A-Z\<close> and the capital letters \<open>0xC0-0xDE\<close> (without the multiplication sign
  \<open>0xD7\<close>) to the code unit 32 above.
\<close>

definition isWhiteSpace :: "char \<Rightarrow> bool" where
  "isWhiteSpace c =
     (let n = (of_char c :: nat)
      in n = 9 \<or> n = 10 \<or> n = 11 \<or> n = 12 \<or> n = 13 \<or> n = 32 \<or> n = 160)"

definition lowerChar :: "char \<Rightarrow> char" where
  "lowerChar c =
     (let n = (of_char c :: nat)
      in if (65 \<le> n \<and> n \<le> 90) \<or> (192 \<le> n \<and> n \<le> 222 \<and> n \<noteq> 215)
         then char_of (n + 32) else c)"

definition toLowerCase :: "string \<Rightarrow> string" where
  "toLowerCase s = map lowerChar s"

definition trim :: "string \<Rightarrow> string" where
  "trim s = rev (dropWhile isWhiteSpace (rev (dropWhile isWhiteSpace s)))"

text \<open>\<open>s.replace(/\s+/g, "")\<close>: every maximal run of white space is deleted.\<close>

definition removeWhiteSpace :: "string \<Rightarrow> string" where
  "removeWhiteSpace s = filter (\<lambda>c. \<not> isWhiteSpace c) s"

definition startsWith :: "string \<Rightarrow> string \<Rightarrow> bool" where
  "startsWith s p = (take (length p) s = p)"

text \<open>\<open>hay.includes(needle)\<close>: the needle starts at some position of the hay.\<close>

fun str_includes :: "string \<Rightarrow> string \<Rightarrow> bool" where
  "str_includes [] needle = (needle = [])"
| "str_includes (c # cs) needle = (startsWith (c # cs) needle \<or> str_includes cs needle)"

text \<open>\<open>normalizeForSearch\<close>: the empty string is falsy and is returned as \<open>""\<close>.\<close>

definition normalizeForSearch :: "string \<Rightarrow> string" where
  "normalizeForSearch text =
     (if text = [] then [] else removeWhiteSpace (toLowerCase text))"

subsection \<open>The display transform\<close>

text \<open>The character classes \<open>[a-z0-9]\<close> and \<open>[A-Z]\<close> of the regular expression.\<close>

definition isLowerOrDigit :: "char \<Rightarrow> bool" where
  "isLowerOrDigit c =
     (let n = (of_char c :: nat) in (97 \<le> n \<and> n \<le> 122) \<or> (48 \<le> n \<and> n \<le> 57))"

definition isUpper :: "char \<Rightarrow> bool" where
  "isUpper c = (let n = (of_char c :: nat) in 65 \<le> n \<and> n \<le> 90)"

text \<open>
  \<open>text.replace(/([a-z0-9])([A-Z])/g, "$1 $2")\<close>: the global replacement scans from the
  left, and after a match of two characters it resumes behind the match.
\<close>

fun replaceLowerUpper :: "string \<Rightarrow> string" where
  "replaceLowerUpper (a # b # cs) =
     (if isLowerOrDigit a \<and> isUpper b
      then a # CHR '' '' # b # replaceLowerUpper cs
      else a # replaceLowerUpper (b # cs))"
| "replaceLowerUpper cs = cs"

definition addSpacesToText :: "string \<Rightarrow> string" where
  "addSpacesToText text = (if text = [] then text else replaceLowerUpper text)"

section \<open>The catalog pipeline: state\<close>

text \<open>
  The exceptions of the program: \<open>JSON.parse\<close> throws a \<open>SyntaxError\<close>, a call on
  \<open>null\<close> and a refused \<open>cache.put\<close> a \<open>TypeError\<close>, and \<open>querySelector\<close> a
  \<open>DOMException\<close> of the name \<open>SyntaxError\<close>.
\<close>

datatype js_error = SyntaxError | TypeError | DOMSyntaxError

record song =
  number :: string
  title :: string
  artist :: string

datatype filter_mode = FilterAll | FilterFavorites

datatype sort_key = SortTitle | SortArtist

text \<open>
  The children of the \<open>songList\<close> element. A song item carries the texts it shows
  (the number without the leading \<open>#\<close>), the value of the \<open>data-song-id\<close>
  attribute of its favourite button, as a list of code points, and whether that button
  has the class \<open>active\<close>. The load-more button carries its two data attributes and
  the array that its click handler has captured.
\<close>

record song_element =
  el_title :: string
  el_number :: string
  el_artist :: string
  el_song_id :: "nat list"
  el_active :: bool

record load_more_btn =
  data_loaded :: nat
  data_total :: nat
  all_songs :: "song list"

datatype node =
    Loading
  | EmptyNoSongs
  | EmptyNoMatch
  | SongItem song_element
  | LoadMore load_more_btn

text \<open>
  The module state of the page script. \<open>favorites\<close> is a JavaScript \<open>Set\<close>, which
  iterates in insertion order: a list without repetitions. \<open>localStorage\<close> maps keys
  to strings; \<open>searchInput\<close> is the value of the search field. An exception that
  leaves an event handler, a frame callback or a promise callback ends that callback
  and is reported by the browser: \<open>uncaught\<close> lists these exceptions.
\<close>

record app_state =
  songs :: "song list"
  favorites :: "string list"
  currentFilter :: filter_mode
  currentSort :: sort_key
  currentPage :: nat
  isRendering :: bool
  searchInput :: string
  localStorage :: "string \<rightharpoonup> string"
  songList :: "node list"
  songCount :: string
  favoriteCount :: string
  uncaught :: "js_error list"

definition ITEMS_PER_PAGE :: nat where
  "ITEMS_PER_PAGE = 50"

definition STORAGE_KEY_SONGS :: string where
  "STORAGE_KEY_SONGS = ''songbook_songs''"

definition STORAGE_KEY_FAVORITES :: string where
  "STORAGE_KEY_FAVORITES = ''songbook_favorites''"

subsection \<open>Sets in insertion order\<close>

definition set_has :: "string list \<Rightarrow> string \<Rightarrow> bool" where
  "set_has fs x = (x \<in> set fs)"

definition set_delete :: "string list \<Rightarrow> string \<Rightarrow> string list" where
  "set_delete fs x = removeAll x fs"

definition set_add :: "string list \<Rightarrow> string \<Rightarrow> string list" where
  "set_add fs x = (if set_has fs x then fs else fs @ [x])"

text \<open>\<open>new Set(array)\<close> adds the elements from the left.\<close>

definition new_Set :: "string list \<Rightarrow> string list" where
  "new_Set xs = foldl set_add [] xs"

subsection \<open>Serialization\<close>

text \<open>
  \<open>JSON.stringify\<close> on strings, on arrays of strings and on arrays of song records
  (keys in the order number, title, artist). Control characters other than the five
  short escapes are written as \<open>\u00XX\<close> with lower-case hexadecimal digits.
\<close>

definition hexDigit :: "nat \<Rightarrow> char" where
  "hexDigit n = (if n < 10 then char_of (48 + n) else char_of (87 + n))"

definition json_char :: "char \<Rightarrow> string" where
  "json_char c =
     (let n = (of_char c :: nat)
      in if n = 34 then [CHR 0x5C, CHR 0x22]
         else if n = 92 then [CHR 0x5C, CHR 0x5C]
         else if n = 8 then [CHR 0x5C, CHR ''b'']
         else if n = 12 then [CHR 0x5C, CHR ''f'']
         else if n = 10 then [CHR 0x5C, CHR ''n'']
         else if n = 13 then [CHR 0x5C, CHR ''r'']
         else if n = 9 then [CHR 0x5C, CHR ''t'']
         else if n < 32
           then [CHR 0x5C, CHR ''u'', CHR ''0'', CHR ''0'', hexDigit (n div 16), hexDigit (n mod 16)]
         else [c])"

definition json_string :: "string \<Rightarrow> string" where
  "json_string s = [CHR 0x22] @ concat (map json_char s) @ [CHR 0x22]"

fun join_comma :: "string list \<Rightarrow> string" where
  "join_comma [] = []"
| "join_comma [x] = x"
| "join_comma (x # y # ys) = x @ '','' @ join_comma (y # ys)"

definition json_array :: "string list \<Rightarrow> string" where
  "json_array items = ''['' @ join_comma items @ '']''"

definition json_strings :: "string list \<Rightarrow> string" where
  "json_strings xs = json_array (map json_string xs)"

definition json_song :: "song \<Rightarrow> string" where
  "json_song s =
     ''{'' @ json_string ''number'' @ '':'' @ json_string (number s) @ '','' @
     json_string ''title'' @ '':'' @ json_string (title s) @ '','' @
     json_string ''artist'' @ '':'' @ json_string (artist s) @ ''}''"

definition json_songs :: "song list \<Rightarrow> string" where
  "json_songs xs = json_array (map json_song xs)"

text \<open>The decimal numeral that a template literal prints for a length or a size.\<close>

fun show_nat :: "nat \<Rightarrow> string" where
  "show_nat n =
     (if n < 10 then [char_of (48 + n)] else show_nat (n div 10) @ [char_of (48 + n mod 10)])"

definition saveToStorage :: "app_state \<Rightarrow> app_state" where
  "saveToStorage s =
     s\<lparr>localStorage := (localStorage s)
          (STORAGE_KEY_SONGS \<mapsto> json_songs (songs s),
           STORAGE_KEY_FAVORITES \<mapsto> json_strings (favorites s))\<rparr>"

definition updateStats :: "app_state \<Rightarrow> app_state" where
  "updateStats s =
     s\<lparr>songCount := show_nat (length (songs s)) @ '' '' @
          (if length (songs s) = 1 then ''song'' else ''songs''),
       favoriteCount := show_nat (length (favorites s)) @ '' '' @
          (if length (favorites s) = 1 then ''favorite'' else ''favorites'')\<rparr>"

section \<open>What the browser reads\<close>

subsection \<open>Markup\<close>

text \<open>
  The markup of a song item is written as a string and read by the HTML parser. The
  parser reads CR LF and CR as LF.
\<close>

fun normalizeNewlines :: "string \<Rightarrow> string" where
  "normalizeNewlines (a # b # cs) =
     (if a = CHR 0x0D \<and> b = CHR 0x0A then CHR 0x0A # normalizeNewlines cs
      else if a = CHR 0x0D then CHR 0x0A # normalizeNewlines (b # cs)
      else a # normalizeNewlines (b # cs))"
| "normalizeNewlines [a] = [if a = CHR 0x0D then CHR 0x0A else a]"
| "normalizeNewlines [] = []"

text \<open>
  A text that went through \<open>escapeHtml\<close>: the characters \<open>&\<close>, \<open><\<close>, \<open>>\<close> and
  the no-break space are written as character references and read back as themselves;
  the parser drops NUL from the text of an element.
\<close>

definition htmlTextOf :: "string \<Rightarrow> string" where
  "htmlTextOf t = filter (\<lambda>c. c \<noteq> CHR 0x00) (normalizeNewlines t)"

text \<open>
  The number of a song is pasted as it is between the double quotes of
  \<open>data-song-id="..."\<close>. In an attribute value NUL is read as U+FFFD, and the five
  references \<open>&amp;\<close>, \<open>&lt;\<close>, \<open>&gt;\<close>, \<open>&quot;\<close>, \<open>&apos;\<close> as their
  characters; another ampersand is not followed here (\<open>None\<close>).
\<close>

definition attrCodePoint :: "char \<Rightarrow> nat" where
  "attrCodePoint c = (if c = CHR 0x00 then 65533 else of_char c)"

fun decodeRefs :: "string \<Rightarrow> nat list option" where
  "decodeRefs [] = Some []"
| "decodeRefs (c # cs) =
     (if c \<noteq> CHR ''&'' then map_option ((#) (attrCodePoint c)) (decodeRefs cs)
      else if startsWith cs ''amp;'' then map_option ((#) 38) (decodeRefs (drop 4 cs))
      else if startsWith cs ''lt;'' then map_option ((#) 60) (decodeRefs (drop 3 cs))
      else if startsWith cs ''gt;'' then map_option ((#) 62) (decodeRefs (drop 3 cs))
      else if startsWith cs ''quot;'' then map_option ((#) 34) (decodeRefs (drop 5 cs))
      else if startsWith cs ''apos;'' then map_option ((#) 39) (decodeRefs (drop 5 cs))
      else None)"

definition isAlnum :: "char \<Rightarrow> bool" where
  "isAlnum c =
     (let n = (of_char c :: nat)
      in (48 \<le> n \<and> n \<le> 57) \<or> (65 \<le> n \<and> n \<le> 90) \<or> (97 \<le> n \<and> n \<le> 122))"

definition isHtmlSpace :: "char \<Rightarrow> bool" where
  "isHtmlSpace c =
     (let n = (of_char c :: nat) in n = 9 \<or> n = 10 \<or> n = 12 \<or> n = 13 \<or> n = 32)"

text \<open>
  The text behind a double quote in the number stands behind the closed attribute
  value, inside the tag of the button. When it is an attribute name of letters and
  digits, an equals sign and a single quote that nothing closes (white space between
  them or not), the single-quoted value runs to the end of the markup, which holds no
  single quote of its own, and the parser drops the tag of the button.
\<close>

definition leavesTagOpen :: "string \<Rightarrow> bool" where
  "leavesTagOpen behind =
     (let t1 = dropWhile isHtmlSpace behind;
          name = takeWhile isAlnum t1;
          t2 = dropWhile isHtmlSpace (dropWhile isAlnum t1)
      in name \<noteq> [] \<and>
         (case t2 of
            [] \<Rightarrow> False
          | e # t3 \<Rightarrow>
              e = CHR ''='' \<and>
              (case dropWhile isHtmlSpace t3 of
                 [] \<Rightarrow> False
               | q # r \<Rightarrow> q = CHR 0x27 \<and> CHR 0x27 \<notin> set r)))"

text \<open>
  What the parser makes of the button for a number: no button, or the button with the
  value of its \<open>data-song-id\<close>. The value ends at the first double quote of the
  number. Letters and digits behind that quote only add an attribute without a value.
  For a number that the cases below do not cover, the outcome is the parameter
  \<open>htmlOther\<close>.
\<close>

datatype button_markup = NoButton | Button "nat list"

definition htmlButton :: "(string \<Rightarrow> button_markup) \<Rightarrow> string \<Rightarrow> button_markup" where
  "htmlButton htmlOther raw =
     (let attrValue = takeWhile (\<lambda>c. c \<noteq> CHR 0x22) raw;
          behind = dropWhile (\<lambda>c. c \<noteq> CHR 0x22) raw
      in case behind of
           [] \<Rightarrow>
             (case decodeRefs (normalizeNewlines attrValue) of
                Some v \<Rightarrow> Button v
              | None \<Rightarrow> htmlOther raw)
         | q # tail \<Rightarrow>
             if list_all isAlnum tail
             then (case decodeRefs (normalizeNewlines attrValue) of
                     Some v \<Rightarrow> Button v
                   | None \<Rightarrow> htmlOther raw)
             else if leavesTagOpen tail then NoButton
             else htmlOther raw)"

subsection \<open>Selectors\<close>

text \<open>
  \<open>toggleFavorite\<close> pastes the number between the double quotes of the selector
  \<open>[data-song-id="..."]\<close>, which the CSS parser reads. It reads CR, FF and CR LF as
  LF and NUL as U+FFFD. Inside the string a backslash escapes: before a line break it
  is dropped with the line break; before up to six hexadecimal digits (and one white
  space behind them) it gives the code point of that number, U+FFFD for zero, for a
  surrogate and for a number beyond U+10FFFF; before another character it gives that
  character. A line break that is not escaped makes the string, and so the selector,
  invalid.
\<close>

definition cssPreprocess :: "string \<Rightarrow> nat list" where
  "cssPreprocess s =
     map (\<lambda>c. if c = CHR 0x0C then 10 else if c = CHR 0x00 then 65533 else of_char c)
         (normalizeNewlines s)"

definition isHexCp :: "nat \<Rightarrow> bool" where
  "isHexCp c = ((48 \<le> c \<and> c \<le> 57) \<or> (65 \<le> c \<and> c \<le> 70) \<or> (97 \<le> c \<and> c \<le> 102))"

definition hexValue :: "nat \<Rightarrow> nat" where
  "hexValue c = (if c \<le> 57 then c - 48 else if c \<le> 70 then c - 55 else c - 87)"

definition escapedCodePoint :: "nat \<Rightarrow> nat" where
  "escapedCodePoint v =
     (if v = 0 \<or> (55296 \<le> v \<and> v \<le> 57343) \<or> 1114111 < v then 65533 else v)"

definition isCssSpace :: "nat \<Rightarrow> bool" where
  "isCssSpace c = (c = 10 \<or> c = 9 \<or> c = 32)"

datatype css_scan = InString | Escaped | Hex nat nat

datatype css_string = BadString | Unterminated "nat list" | Closed "nat list" "nat list"

fun consumeString :: "css_scan \<Rightarrow> nat list \<Rightarrow> nat list \<Rightarrow> css_string" where
  "consumeString InString acc [] = Unterminated acc"
| "consumeString Escaped acc [] = Unterminated acc"
| "consumeString (Hex v n) acc [] = Unterminated (acc @ [escapedCodePoint v])"
| "consumeString InString acc (c # cs) =
     (if c = 34 then Closed acc cs
      else if c = 10 then BadString
      else if c = 92 then consumeString Escaped acc cs
      else consumeString InString (acc @ [c]) cs)"
| "consumeString Escaped acc (c # cs) =
     (if c = 10 then consumeString InString acc cs
      else if isHexCp c then consumeString (Hex (hexValue c) 1) acc cs
      else consumeString InString (acc @ [c]) cs)"
| "consumeString (Hex v n) acc (c # cs) =
     (if isHexCp c \<and> n < 6 then consumeString (Hex (16 * v + hexValue c) (n + 1)) acc cs
      else if isCssSpace c then consumeString InString (acc @ [escapedCodePoint v]) cs
      else if c = 34 then Closed (acc @ [escapedCodePoint v]) cs
      else if c = 92 then consumeString Escaped (acc @ [escapedCodePoint v]) cs
      else consumeString InString (acc @ [escapedCodePoint v] @ [c]) cs)"

text \<open>
  What the selector selects. When the string ends at the quote that the program has
  written, the selector is valid and selects the elements whose attribute has the value
  of the string. When the string ends at a quote of the number, the next token decides:
  anything but a closing bracket, a name, or what may begin a comment or an escaped
  name makes the selector invalid, and so does a name other than the modifiers \<open>i\<close>
  and \<open>s\<close>. The selectors that this leaves open, and a string that runs to the end
  of the selector, are not followed here (\<open>OtherSelector\<close>).
\<close>

datatype selector = InvalidSelector | SelectsValue "nat list" | OtherSelector

definition isNameStart :: "nat \<Rightarrow> bool" where
  "isNameStart c = ((65 \<le> c \<and> c \<le> 90) \<or> (97 \<le> c \<and> c \<le> 122) \<or> c = 95 \<or> 128 \<le> c)"

definition isNameChar :: "nat \<Rightarrow> bool" where
  "isNameChar c = (isNameStart c \<or> (48 \<le> c \<and> c \<le> 57) \<or> c = 45)"

definition afterValue :: "nat list \<Rightarrow> selector" where
  "afterValue rest =
     (case dropWhile isCssSpace rest of
        [] \<Rightarrow> OtherSelector
      | c # cs \<Rightarrow>
          if c = 93 \<or> c = 47 \<or> c = 92 \<or> c = 45 then OtherSelector
          else if isNameStart c
          then (let name = takeWhile isNameChar (c # cs);
                    behind = dropWhile isNameChar (c # cs)
                in if take 1 behind = [92] \<or> take 1 behind = [40] then OtherSelector
                   else if name = [105] \<or> name = [73] \<or> name = [115] \<or> name = [83]
                   then OtherSelector
                   else InvalidSelector)
          else InvalidSelector)"

definition selectorFor :: "string \<Rightarrow> selector" where
  "selectorFor songId =
     (case consumeString InString [] (cssPreprocess (songId @ [CHR 0x22, CHR '']''])) of
        BadString \<Rightarrow> InvalidSelector
      | Unterminated v \<Rightarrow> OtherSelector
      | Closed v rest \<Rightarrow> if rest = [93] then SelectsValue v else afterValue rest)"

section \<open>The catalog pipeline: operations\<close>

subsection \<open>Favourites\<close>

text \<open>
  \<open>document.querySelector\<close> finds the first element that the selector selects, in
  document order. The favourite buttons of the song list are the elements of the page
  that carry the attribute \<open>data-song-id\<close>. \<open>classList.toggle("active", v)\<close> sets
  the class according to \<open>v\<close>; when the selector selects no element, nothing is
  changed.
\<close>

fun setActiveOfFirst :: "nat list \<Rightarrow> bool \<Rightarrow> node list \<Rightarrow> node list" where
  "setActiveOfFirst attrValue v [] = []"
| "setActiveOfFirst attrValue v (SongItem e # ns) =
     (if el_song_id e = attrValue then SongItem (e\<lparr>el_active := v\<rparr>) # ns
      else SongItem e # setActiveOfFirst attrValue v ns)"
| "setActiveOfFirst attrValue v (n # ns) = n # setActiveOfFirst attrValue v ns"

text \<open>
  \<open>toggleFavorite\<close> as the click handler of a favourite button runs it. For a
  selector that is not valid, \<open>querySelector\<close> throws after the favourites were
  stored and the counts were written. For a selector that is not followed here, the
  parameter \<open>cssOther\<close> gives what the last step does to the song list.
\<close>

definition toggleFavorite ::
  "(string \<Rightarrow> bool \<Rightarrow> node list \<Rightarrow> js_error + node list) \<Rightarrow> string \<Rightarrow> app_state \<Rightarrow> app_state" where
  "toggleFavorite cssOther songId s =
     (let s1 = s\<lparr>favorites :=
                 (if set_has (favorites s) songId then set_delete (favorites s) songId
                  else set_add (favorites s) songId)\<rparr>;
          s2 = saveToStorage s1;
          s3 = updateStats s2
      in case selectorFor songId of
           InvalidSelector \<Rightarrow> s3\<lparr>uncaught := uncaught s3 @ [DOMSyntaxError]\<rparr>
         | SelectsValue attrValue \<Rightarrow>
             s3\<lparr>songList := setActiveOfFirst attrValue (set_has (favorites s3) songId) (songList s3)\<rparr>
         | OtherSelector \<Rightarrow>
             (case cssOther songId (set_has (favorites s3) songId) (songList s3) of
                Inl e \<Rightarrow> s3\<lparr>uncaught := uncaught s3 @ [e]\<rparr>
              | Inr ns \<Rightarrow> s3\<lparr>songList := ns\<rparr>))"

subsection \<open>Filtering and sorting\<close>

definition matchesSearch :: "string \<Rightarrow> song \<Rightarrow> bool" where
  "matchesSearch searchTerm sg =
     (let normalizedSearchTerm = normalizeForSearch searchTerm;
          normalizedTitle = normalizeForSearch (title sg);
          normalizedArtist = normalizeForSearch (artist sg);
          normalizedNumber = removeWhiteSpace (number sg)
      in normalizedSearchTerm = [] \<or>
         str_includes normalizedTitle normalizedSearchTerm \<or>
         str_includes normalizedArtist normalizedSearchTerm \<or>
         str_includes normalizedNumber normalizedSearchTerm)"

definition matchesFavorites :: "app_state \<Rightarrow> song \<Rightarrow> bool" where
  "matchesFavorites s sg = (currentFilter s = FilterAll \<or> set_has (favorites s) (number sg))"

definition filterSongs :: "string \<Rightarrow> app_state \<Rightarrow> song list" where
  "filterSongs searchTerm s =
     filter (\<lambda>sg. matchesSearch searchTerm sg \<and> matchesFavorites s sg) (songs s)"

text \<open>
  \<open>Array.prototype.sort(comparator)\<close> is a stable sort: an element goes before
  another when the comparator is negative, behind it when it is positive, and elements
  that compare as zero keep their order. It is modelled as the insertion sort that
  inserts from the right end of the array. \<open>localeCompare\<close> belongs to the browser
  and is a parameter of the model.
\<close>

fun insertSorted :: "('a \<Rightarrow> 'a \<Rightarrow> int) \<Rightarrow> 'a \<Rightarrow> 'a list \<Rightarrow> 'a list" where
  "insertSorted cmp x [] = [x]"
| "insertSorted cmp x (y # ys) =
     (if cmp x y \<le> 0 then x # y # ys else y # insertSorted cmp x ys)"

fun array_sort :: "('a \<Rightarrow> 'a \<Rightarrow> int) \<Rightarrow> 'a list \<Rightarrow> 'a list" where
  "array_sort cmp [] = []"
| "array_sort cmp (x # xs) = insertSorted cmp x (array_sort cmp xs)"

definition compareSongs :: "(string \<Rightarrow> string \<Rightarrow> int) \<Rightarrow> sort_key \<Rightarrow> song \<Rightarrow> song \<Rightarrow> int" where
  "compareSongs localeCompare key a b =
     (if key = SortTitle then localeCompare (title a) (title b)
      else localeCompare (artist a) (artist b))"

definition filteredSongs :: "(string \<Rightarrow> string \<Rightarrow> int) \<Rightarrow> string \<Rightarrow> app_state \<Rightarrow> song list" where
  "filteredSongs localeCompare searchTerm s =
     array_sort (compareSongs localeCompare (currentSort s)) (filterSongs searchTerm s)"

subsection \<open>Rendering\<close>

text \<open>
  \<open>createSongElement\<close> writes the markup of the item and takes the favourite button
  from what the parser has made of it. Without a button, \<open>favoriteBtn\<close> is
  \<open>null\<close> and the call of \<open>addEventListener\<close> throws a \<open>TypeError\<close>.
\<close>

definition songElement :: "string list \<Rightarrow> song \<Rightarrow> nat list \<Rightarrow> song_element" where
  "songElement favs sg attrValue =
     \<lparr>el_title = htmlTextOf (addSpacesToText (title sg)),
      el_number = htmlTextOf (number sg),
      el_artist = htmlTextOf (addSpacesToText (artist sg)),
      el_song_id = attrValue,
      el_active = set_has favs (number sg)\<rparr>"

definition createSongElement ::
  "(string \<Rightarrow> button_markup) \<Rightarrow> string list \<Rightarrow> song \<Rightarrow> js_error + song_element" where
  "createSongElement htmlOther favs sg =
     (case htmlButton htmlOther (number sg) of
        NoButton \<Rightarrow> Inl TypeError
      | Button attrValue \<Rightarrow> Inr (songElement favs sg attrValue))"

text \<open>
  The \<open>forEach\<close> that fills the fragment: the first exception ends it, and the
  fragment is lost.
\<close>

fun createFragment ::
  "(string \<Rightarrow> button_markup) \<Rightarrow> string list \<Rightarrow> song list \<Rightarrow> js_error + node list" where
  "createFragment htmlOther favs [] = Inr []"
| "createFragment htmlOther favs (sg # sgs) =
     (case createSongElement htmlOther favs sg of
        Inl e \<Rightarrow> Inl e
      | Inr el \<Rightarrow>
          (case createFragment htmlOther favs sgs of
             Inl e \<Rightarrow> Inl e
           | Inr els \<Rightarrow> Inr (SongItem el # els)))"

definition slice :: "'a list \<Rightarrow> nat \<Rightarrow> nat \<Rightarrow> 'a list" where
  "slice xs a b = take (b - a) (drop a xs)"

definition renderSongsImmediate ::
  "(string \<Rightarrow> button_markup) \<Rightarrow> song list \<Rightarrow> app_state \<Rightarrow> js_error + app_state" where
  "renderSongsImmediate htmlOther filtered s =
     (case createFragment htmlOther (favorites s) filtered of
        Inl e \<Rightarrow> Inl e
      | Inr fragment \<Rightarrow> Inr (s\<lparr>songList := songList s @ fragment\<rparr>))"

definition renderSongsVirtual ::
  "(string \<Rightarrow> button_markup) \<Rightarrow> song list \<Rightarrow> app_state \<Rightarrow> js_error + app_state" where
  "renderSongsVirtual htmlOther filtered s =
     (let totalSongs = length filtered;
          itemsPerPage = ITEMS_PER_PAGE;
          initialSongs = slice filtered 0 itemsPerPage
      in case createFragment htmlOther (favorites s) initialSongs of
           Inl e \<Rightarrow> Inl e
         | Inr fragment \<Rightarrow>
             (let s1 = s\<lparr>songList := songList s @ fragment\<rparr>
              in if totalSongs > itemsPerPage
                 then Inr (s1\<lparr>songList := songList s1 @
                        [LoadMore \<lparr>data_loaded = itemsPerPage, data_total = totalSongs,
                                   all_songs = filtered\<rparr>]\<rparr>)
                 else Inr s1))"

text \<open>
  The body of \<open>renderSongs\<close> that runs in the animation frame, with the search term
  that \<open>renderSongs\<close> has read before. An exception ends the callback where the list
  is already emptied, the counts are not written and \<open>isRendering\<close> is still set.
\<close>

definition renderFrame ::
  "(string \<Rightarrow> string \<Rightarrow> int) \<Rightarrow> (string \<Rightarrow> button_markup) \<Rightarrow> string \<Rightarrow> app_state \<Rightarrow> app_state" where
  "renderFrame localeCompare htmlOther searchTerm s =
     (let filtered = filteredSongs localeCompare searchTerm s;
          s1 = s\<lparr>songList := []\<rparr>
      in if length filtered = 0
         then (updateStats
                 (s1\<lparr>songList := [if length (songs s) = 0 then EmptyNoSongs else EmptyNoMatch]\<rparr>))
              \<lparr>isRendering := False\<rparr>
         else (case (if length filtered > ITEMS_PER_PAGE
                     then renderSongsVirtual htmlOther filtered s1
                     else renderSongsImmediate htmlOther filtered s1) of
                 Inl e \<Rightarrow> s1\<lparr>uncaught := uncaught s1 @ [e]\<rparr>
               | Inr s2 \<Rightarrow> (updateStats s2)\<lparr>isRendering := False\<rparr>))"

definition renderSongs ::
  "(string \<Rightarrow> string \<Rightarrow> int) \<Rightarrow> (string \<Rightarrow> button_markup) \<Rightarrow> app_state \<Rightarrow> app_state" where
  "renderSongs localeCompare htmlOther s =
     (if isRendering s then s
      else
        let searchTerm = trim (toLowerCase (searchInput s));
            s1 = s\<lparr>isRendering := True\<rparr>;
            s2 = (if length (songs s) > 100 then s1\<lparr>songList := [Loading]\<rparr> else s1)
        in renderFrame localeCompare htmlOther searchTerm s2)"

subsection \<open>Load more\<close>

text \<open>
  \<open>renderSongs\<close> empties the list before it renders, so the list holds at most one
  load-more button: the button of a click is the first one in the list.
  \<open>insertBefore\<close> puts the new items in front of it; the button is then removed or
  stays with its new \<open>data-loaded\<close>. \<open>parseInt\<close> reads back the decimal numerals
  that were written to the data attributes, so these are kept as numbers. The label of
  the button is not recorded.
\<close>

fun findLoadMore :: "node list \<Rightarrow> load_more_btn option" where
  "findLoadMore [] = None"
| "findLoadMore (LoadMore b # ns) = Some b"
| "findLoadMore (n # ns) = findLoadMore ns"

fun insertBeforeLoadMore :: "node list \<Rightarrow> node list \<Rightarrow> node list \<Rightarrow> node list" where
  "insertBeforeLoadMore [] fragment container = []"
| "insertBeforeLoadMore (LoadMore b # ns) fragment container = fragment @ container @ ns"
| "insertBeforeLoadMore (n # ns) fragment container =
     n # insertBeforeLoadMore ns fragment container"

definition loadMoreSongs ::
  "(string \<Rightarrow> button_markup) \<Rightarrow> song list \<Rightarrow> load_more_btn \<Rightarrow> app_state \<Rightarrow> js_error + app_state" where
  "loadMoreSongs htmlOther allSongs button s =
     (let loaded = data_loaded button;
          total = data_total button;
          itemsPerPage = ITEMS_PER_PAGE;
          nextBatch = slice allSongs loaded (loaded + itemsPerPage)
      in case createFragment htmlOther (favorites s) nextBatch of
           Inl e \<Rightarrow> Inl e
         | Inr fragment \<Rightarrow>
             (let newLoaded = loaded + length nextBatch
              in Inr (s\<lparr>songList := insertBeforeLoadMore (songList s) fragment
                       (if newLoaded \<ge> total then []
                        else [LoadMore (button\<lparr>data_loaded := newLoaded\<rparr>)])\<rparr>)))"

text \<open>A click on "load more"; without a button in the list there is nothing to click.\<close>

definition clickLoadMore :: "(string \<Rightarrow> button_markup) \<Rightarrow> app_state \<Rightarrow> app_state" where
  "clickLoadMore htmlOther s =
     (case findLoadMore (songList s) of
        None \<Rightarrow> s
      | Some button \<Rightarrow>
          (case loadMoreSongs htmlOther (all_songs button) button s of
             Inl e \<Rightarrow> s\<lparr>uncaught := uncaught s @ [e]\<rparr>
           | Inr s' \<Rightarrow> s'))"

fun songItems :: "node list \<Rightarrow> song_element list" where
  "songItems [] = []"
| "songItems (SongItem e # ns) = e # songItems ns"
| "songItems (n # ns) = songItems ns"

subsection \<open>Clear all\<close>

definition clearAll ::
  "(string \<Rightarrow> string \<Rightarrow> int) \<Rightarrow> (string \<Rightarrow> button_markup) \<Rightarrow> bool \<Rightarrow> app_state \<Rightarrow> app_state" where
  "clearAll localeCompare htmlOther isConfirmed s =
     (if isConfirmed
      then renderSongs localeCompare htmlOther (saveToStorage (s\<lparr>songs := [], favorites := []\<rparr>))
      else s)"

subsection \<open>Start of the page\<close>

text \<open>
  What \<open>fetch("assets/songs.json")\<close> does: the promise rejects, or it resolves with a
  response that is ok or not and whose body is JSON or not. The catalog file holds
  \<open>{ songs: [...] }\<close> or a bare array. \<open>JSON.parse\<close> is a parameter of the model
  (\<open>None\<close> when it throws), one for each of the two stored values.
\<close>

datatype catalog_data = Wrapped "song list" | Bare "song list"

datatype fetch_outcome = FetchRejected | FetchResponse bool "catalog_data option"

definition catalog_songs :: "catalog_data \<Rightarrow> song list" where
  "catalog_songs d = (case d of Wrapped xs \<Rightarrow> xs | Bare xs \<Rightarrow> xs)"

text \<open>The \<open>catch\<close> block of \<open>loadFromStorage\<close>; a stored empty string is falsy.\<close>

definition loadFallback :: "(string \<Rightarrow> song list option) \<Rightarrow> app_state \<Rightarrow> js_error + app_state" where
  "loadFallback parseSongs s =
     (case localStorage s STORAGE_KEY_SONGS of
        None \<Rightarrow> Inr s
      | Some savedSongs \<Rightarrow>
          if savedSongs = [] then Inr s
          else (case parseSongs savedSongs of
                  None \<Rightarrow> Inl SyntaxError
                | Some xs \<Rightarrow> Inr (s\<lparr>songs := xs\<rparr>)))"

definition loadFavorites :: "(string \<Rightarrow> string list option) \<Rightarrow> app_state \<Rightarrow> js_error + app_state" where
  "loadFavorites parseFavorites s =
     (case localStorage s STORAGE_KEY_FAVORITES of
        None \<Rightarrow> Inr s
      | Some savedFavorites \<Rightarrow>
          if savedFavorites = [] then Inr s
          else (case parseFavorites savedFavorites of
                  None \<Rightarrow> Inl SyntaxError
                | Some xs \<Rightarrow> Inr (s\<lparr>favorites := new_Set xs\<rparr>)))"

text \<open>The \<open>try\<close> statement of \<open>loadFromStorage\<close>, which sets the catalog.\<close>

definition loadCatalog ::
  "(string \<Rightarrow> song list option) \<Rightarrow> fetch_outcome \<Rightarrow> app_state \<Rightarrow> js_error + app_state" where
  "loadCatalog parseSongs outcome s =
     (case outcome of
        FetchRejected \<Rightarrow> loadFallback parseSongs s
      | FetchResponse ok content \<Rightarrow>
          if ok
          then (case content of
                  None \<Rightarrow> loadFallback parseSongs s
                | Some d \<Rightarrow> Inr (saveToStorage (s\<lparr>songs := catalog_songs d\<rparr>)))
          else Inr s)"

definition loadFromStorage ::
  "(string \<Rightarrow> song list option) \<Rightarrow> (string \<Rightarrow> string list option) \<Rightarrow>
   fetch_outcome \<Rightarrow> app_state \<Rightarrow> js_error + app_state" where
  "loadFromStorage parseSongs parseFavorites outcome s =
     (case loadCatalog parseSongs outcome s of
        Inl e \<Rightarrow> Inl e
      | Inr s1 \<Rightarrow> loadFavorites parseFavorites s1)"

text \<open>The module state when the script starts, over the storage and the search field.\<close>

definition initial_state :: "(string \<rightharpoonup> string) \<Rightarrow> string \<Rightarrow> app_state" where
  "initial_state store input =
     \<lparr>songs = [], favorites = [], currentFilter = FilterAll, currentSort = SortTitle,
      currentPage = 0, isRendering = False, searchInput = input, localStorage = store,
      songList = [], songCount = [], favoriteCount = [], uncaught = []\<rparr>"

definition init ::
  "(string \<Rightarrow> string \<Rightarrow> int) \<Rightarrow> (string \<Rightarrow> button_markup) \<Rightarrow> (string \<Rightarrow> song list option) \<Rightarrow>
   (string \<Rightarrow> string list option) \<Rightarrow> fetch_outcome \<Rightarrow> (string \<rightharpoonup> string) \<Rightarrow> string \<Rightarrow>
   js_error + app_state" where
  "init localeCompare htmlOther parseSongs parseFavorites outcome store input =
     (case loadFromStorage parseSongs parseFavorites outcome (initial_state store input) of
        Inl e \<Rightarrow> Inl e
      | Inr s \<Rightarrow> Inr (renderSongs localeCompare htmlOther s))"

section \<open>The offline cache manager\<close>

definition CACHE_NAME :: string where
  "CACHE_NAME = ''songbook-v1.5''"

definition ASSETS :: "string list" where
  "ASSETS =
     [''/song-book/'', ''/song-book/index.html'', ''/song-book/style.css'',
      ''/song-book/app.js'', ''/song-book/manifest.json'',
      ''https://cdn.jsdelivr.net/npm/sweetalert2@11'',
      ''https://cdnjs.cloudflare.com/ajax/libs/pdf.js/4.0.379/pdf.min.mjs'']"

text \<open>
  A request has the serialized absolute URL, the method and the headers; a header list
  holds each name once, and names are compared without regard to case.
\<close>

record request =
  url :: string
  req_method :: string
  req_headers :: "(string \<times> string) list"

datatype response_type = Basic | Cors | Default | Error | Opaque | OpaqueRedirect

record response =
  status :: nat
  statusText :: string
  rtype :: response_type
  headers :: "(string \<times> string) list"
  body :: string

definition headerGet :: "(string \<times> string) list \<Rightarrow> string \<Rightarrow> string option" where
  "headerGet hs name = map_of (map (\<lambda>h. (toLowerCase (fst h), snd h)) hs) (toLowerCase name)"

fun splitComma :: "string \<Rightarrow> string list" where
  "splitComma [] = [[]]"
| "splitComma (c # cs) =
     (if c = CHR '','' then [] # splitComma cs
      else (case splitComma cs of [] \<Rightarrow> [[c]] | w # ws \<Rightarrow> (c # w) # ws))"

definition isHttpSpace :: "char \<Rightarrow> bool" where
  "isHttpSpace c = (c = CHR '' '' \<or> c = CHR 0x09)"

definition trimHttp :: "string \<Rightarrow> string" where
  "trimHttp s = rev (dropWhile isHttpSpace (rev (dropWhile isHttpSpace s)))"

text \<open>The field names that the \<open>Vary\<close> header of a response lists.\<close>

definition varyFields :: "response \<Rightarrow> string list" where
  "varyFields resp =
     (case headerGet (headers resp) ''Vary'' of
        None \<Rightarrow> []
      | Some v \<Rightarrow> map trimHttp (splitComma v))"

definition urlWithoutFragment :: "string \<Rightarrow> string" where
  "urlWithoutFragment u = takeWhile (\<lambda>c. c \<noteq> CHR ''#'') u"

text \<open>
  A cache is the list of its entries, each the request and the response that were
  put; the cache storage is the list of the named caches in the order of their
  creation. A request matches an entry when it is a GET request, the URLs agree up to
  the fragment, and for every field that the \<open>Vary\<close> header of the stored response
  names, the request and the stored request carry the same value (and the field is not
  \<open>*\<close>). \<open>match\<close> answers with the first entry that matches.
\<close>

type_synonym cache = "(request \<times> response) list"

type_synonym cache_storage = "(string \<times> cache) list"

definition requestMatches :: "request \<Rightarrow> request \<times> response \<Rightarrow> bool" where
  "requestMatches req entry =
     (req_method req = ''GET'' \<and>
      urlWithoutFragment (url req) = urlWithoutFragment (url (fst entry)) \<and>
      list_all (\<lambda>f. f \<noteq> ''*'' \<and>
                     headerGet (req_headers req) f = headerGet (req_headers (fst entry)) f)
               (varyFields (snd entry)))"

definition cache_match :: "cache \<Rightarrow> request \<Rightarrow> response option" where
  "cache_match c req =
     (case filter (requestMatches req) c of [] \<Rightarrow> None | entry # _ \<Rightarrow> Some (snd entry))"

fun caches_match :: "cache_storage \<Rightarrow> request \<Rightarrow> response option" where
  "caches_match [] req = None"
| "caches_match ((name, c) # rest) req =
     (case cache_match c req of Some r \<Rightarrow> Some r | None \<Rightarrow> caches_match rest req)"

definition caches_keys :: "cache_storage \<Rightarrow> string list" where
  "caches_keys cs = map fst cs"

definition caches_open :: "string \<Rightarrow> cache_storage \<Rightarrow> cache_storage" where
  "caches_open name cs = (if name \<in> set (caches_keys cs) then cs else cs @ [(name, [])])"

definition caches_delete :: "string \<Rightarrow> cache_storage \<Rightarrow> cache_storage" where
  "caches_delete name cs = filter (\<lambda>entry. fst entry \<noteq> name) cs"

text \<open>
  \<open>cache.put(request, response)\<close> rejects with a \<open>TypeError\<close> when the URL of the
  request is not an http or https URL, when the method is not GET, when the status of
  the response is 206, or when its \<open>Vary\<close> header names \<open>*\<close>. Otherwise the
  entries that the request matches are removed, and the new entry is added at the end.
\<close>

definition putAccepted :: "request \<Rightarrow> response \<Rightarrow> bool" where
  "putAccepted req resp =
     ((startsWith (url req) ''http://'' \<or> startsWith (url req) ''https://'') \<and>
      req_method req = ''GET'' \<and>
      status resp \<noteq> 206 \<and>
      ''*'' \<notin> set (varyFields resp))"

definition cache_put :: "cache \<Rightarrow> request \<Rightarrow> response \<Rightarrow> js_error + cache" where
  "cache_put c req resp =
     (if putAccepted req resp
      then Inr (filter (\<lambda>entry. \<not> requestMatches req entry) c @ [(req, resp)])
      else Inl TypeError)"

text \<open>
  The state of the worker: the cache storage, the requests that went to the network,
  the stores that the fetch handler has started and does not wait for (the name of the
  cache, the request and the copy of the response), and the rejections that nothing
  handles.
\<close>

record sw_state =
  caches :: cache_storage
  network_log :: "request list"
  pending :: "(string \<times> request \<times> response) list"
  unhandled :: "js_error list"

text \<open>
  \<open>caches.open(name).then(cache => cache.put(request, response))\<close>: the cache is
  opened, which creates it when there is none of that name, and the pair is put into
  it unless \<open>put\<close> rejects.
\<close>

definition openAndPut :: "string \<Rightarrow> request \<Rightarrow> response \<Rightarrow> sw_state \<Rightarrow> sw_state" where
  "openAndPut name req resp st =
     (let opened = caches_open name (caches st)
      in case cache_put (case map_of opened name of None \<Rightarrow> [] | Some c \<Rightarrow> c) req resp of
           Inl e \<Rightarrow> st\<lparr>caches := opened, unhandled := unhandled st @ [e]\<rparr>
         | Inr c' \<Rightarrow>
             st\<lparr>caches := map (\<lambda>entry. if fst entry = name then (name, c') else entry) opened\<rparr>)"

text \<open>
  The stores that were started run when the handler has returned; the worker is not
  asked to wait for them.
\<close>

definition settle :: "sw_state \<Rightarrow> sw_state" where
  "settle st =
     foldl (\<lambda>acc p. openAndPut (fst p) (fst (snd p)) (snd (snd p)) acc)
           (st\<lparr>pending := []\<rparr>) (pending st)"

text \<open>
  The install step, which the browser waits for: the cache of the current version is
  opened, and \<open>addAll\<close> fetches the listed assets, resolved against the origin of the
  worker. It stores them when every one was fetched with an ok status (other than 206)
  and no \<open>Vary\<close> header names \<open>*\<close>; otherwise it rejects without storing, and the
  failure is only logged.
\<close>

definition resolveUrl :: "string \<Rightarrow> string \<Rightarrow> string" where
  "resolveUrl origin u = (if startsWith u ''/'' then origin @ u else u)"

definition assetRequest :: "string \<Rightarrow> string \<Rightarrow> request" where
  "assetRequest origin u = \<lparr>url = resolveUrl origin u, req_method = ''GET'', req_headers = []\<rparr>"

fun addAll :: "(request \<Rightarrow> response option) \<Rightarrow> request list \<Rightarrow> (request \<times> response) list option" where
  "addAll net [] = Some []"
| "addAll net (r # rs) =
     (case net r of
        None \<Rightarrow> None
      | Some resp \<Rightarrow>
          if rtype resp \<noteq> Error \<and> 200 \<le> status resp \<and> status resp \<le> 299 \<and>
             putAccepted r resp
          then (case addAll net rs of None \<Rightarrow> None | Some rest \<Rightarrow> Some ((r, resp) # rest))
          else None)"

definition install :: "string \<Rightarrow> (request \<Rightarrow> response option) \<Rightarrow> sw_state \<Rightarrow> sw_state" where
  "install origin net st =
     (let st1 = st\<lparr>caches := caches_open CACHE_NAME (caches st),
                   network_log := network_log st @ map (assetRequest origin) ASSETS\<rparr>
      in case addAll net (map (assetRequest origin) ASSETS) of
           None \<Rightarrow> st1
         | Some fetched \<Rightarrow>
             foldl (\<lambda>acc p. openAndPut CACHE_NAME (fst p) (snd p) acc) st1 fetched)"

text \<open>The activate step: every cache whose name is not the current one is deleted.\<close>

definition activate :: "sw_state \<Rightarrow> sw_state" where
  "activate st =
     st\<lparr>caches := foldl (\<lambda>cs cache. if cache \<noteq> CACHE_NAME then caches_delete cache cs else cs)
                     (caches st) (caches_keys (caches st))\<rparr>"

text \<open>
  The fetch handler: either the event is left to the browser, or it is answered. A
  fetch that resolves gives a response object, so the test for a missing response is
  left out. For a response that is to be cached the handler starts the store and
  returns the response without waiting for the store.
\<close>

datatype fetch_result = NotIntercepted | RespondWith response

definition offlineResponse :: response where
  "offlineResponse =
     \<lparr>status = 503, statusText = ''Service Unavailable'', rtype = Default,
      headers = [(''Content-Type'', ''text/plain'')],
      body = ''Offline - Content not available''\<rparr>"

definition onFetch :: "(request \<Rightarrow> response option) \<Rightarrow> request \<Rightarrow> sw_state \<Rightarrow> fetch_result \<times> sw_state" where
  "onFetch net req st =
     (if startsWith (url req) ''chrome-extension://'' then (NotIntercepted, st)
      else if req_method req \<noteq> ''GET'' then (NotIntercepted, st)
      else
        (case caches_match (caches st) req of
           Some resp \<Rightarrow> (RespondWith resp, st)
         | None \<Rightarrow>
             (let st1 = st\<lparr>network_log := network_log st @ [req]\<rparr>
              in case net req of
                   None \<Rightarrow> (RespondWith offlineResponse, st1)
                 | Some fetchResponse \<Rightarrow>
                     if status fetchResponse \<noteq> 200 \<or> rtype fetchResponse = Error
                     then (RespondWith fetchResponse, st1)
                     else (RespondWith fetchResponse,
                           st1\<lparr>pending := pending st1 @ [(CACHE_NAME, req, fetchResponse)]\<rparr>))))"

section \<open>Notions of the specification\<close>



text \<open>
  A consistent comparator, as the language standard asks of the argument of
  \<open>sort\<close> and of \<open>localeCompare\<close>: the sign is reversed when the arguments are
  swapped, and "not behind" is transitive.
\<close>

definition consistentComparator :: "('a \<Rightarrow> 'a \<Rightarrow> int) \<Rightarrow> bool" where
  "consistentComparator c =
     ((\<forall>a b. (c a b < 0) = (0 < c b a)) \<and>
      (\<forall>a b d. c a b \<le> 0 \<and> c b d \<le> 0 \<longrightarrow> c a d \<le> 0))"

text \<open>
  The parser keeps the button of a song; the element of such a song; and the song list
  when the first \<open>k\<close> songs of the array are shown: the items, and the load-more
  button while songs are left.
\<close>

definition hasButton :: "(string \<Rightarrow> button_markup) \<Rightarrow> song \<Rightarrow> bool" where
  "hasButton htmlOther sg = (htmlButton htmlOther (number sg) \<noteq> NoButton)"

definition renderedElement :: "(string \<Rightarrow> button_markup) \<Rightarrow> string list \<Rightarrow> song \<Rightarrow> song_element" where
  "renderedElement htmlOther favs sg =
     songElement favs sg
       (case htmlButton htmlOther (number sg) of NoButton \<Rightarrow> [] | Button attrValue \<Rightarrow> attrValue)"

definition pagedList ::
  "(string \<Rightarrow> button_markup) \<Rightarrow> string list \<Rightarrow> song list \<Rightarrow> nat \<Rightarrow> node list" where
  "pagedList htmlOther favs filtered k =
     map (\<lambda>sg. SongItem (renderedElement htmlOther favs sg)) (take k filtered) @
     (if k < length filtered
      then [LoadMore \<lparr>data_loaded = k, data_total = length filtered, all_songs = filtered\<rparr>]
      else [])"

text \<open>
  A number that is plain for the markup and for the selector: it holds no double
  quote, ampersand, backslash, line break, form feed or NUL.
\<close>

definition plainNumber :: "string \<Rightarrow> bool" where
  "plainNumber x =
     list_all (\<lambda>c. c \<noteq> CHR 0x22 \<and> c \<noteq> CHR ''&'' \<and> c \<noteq> CHR 0x5C \<and> c \<noteq> CHR 0x0A \<and>
                    c \<noteq> CHR 0x0D \<and> c \<noteq> CHR 0x0C \<and> c \<noteq> CHR 0x00) x"

text \<open>
  The stored favourites can be read: nothing is stored, or the stored string is empty
  (and is skipped), or \<open>JSON.parse\<close> accepts it.
\<close>

definition favoritesReadable :: "(string \<Rightarrow> string list option) \<Rightarrow> (string \<rightharpoonup> string) \<Rightarrow> bool" where
  "favoritesReadable parseFavorites store =
     (case store STORAGE_KEY_FAVORITES of
        None \<Rightarrow> True
      | Some savedFavorites \<Rightarrow> savedFavorites = [] \<or> parseFavorites savedFavorites \<noteq> None)"

section \<open>Example states\<close>

text \<open>
  Values for the two parameters of the browser in the examples; the examples stay
  within the cases that are followed, where the parameters are not asked.
\<close>

definition demo_htmlOther :: "string \<Rightarrow> button_markup" where
  "demo_htmlOther raw = NoButton"

definition demo_cssOther :: "string \<Rightarrow> bool \<Rightarrow> node list \<Rightarrow> js_error + node list" where
  "demo_cssOther songId v ns = Inr ns"

text \<open>The state after the songs \<open>a\<close> and \<open>b\<close> were marked as favourites, in this order.\<close>

definition two_favorites :: app_state where
  "two_favorites =
     toggleFavorite demo_cssOther ''b'' (toggleFavorite demo_cssOther ''a'' (initial_state Map.empty []))"

text \<open>
  The comparison of two strings by their code units, an example of a consistent
  comparator.
\<close>

fun codeUnitCompare :: "string \<Rightarrow> string \<Rightarrow> int" where
  "codeUnitCompare [] [] = 0"
| "codeUnitCompare [] (b # bs) = - 1"
| "codeUnitCompare (a # as) [] = 1"
| "codeUnitCompare (a # as) (b # bs) =
     (if (of_char a :: nat) < of_char b then - 1
      else if (of_char b :: nat) < of_char a then 1
      else codeUnitCompare as bs)"

text \<open>The catalog of the scenario in the specification, with two more songs.\<close>

definition demo_songs :: "song list" where
  "demo_songs =
     [\<lparr>number = ''30'', title = ''Conga'', artist = ''GloriaEstefan''\<rparr>,
      \<lparr>number = ''12'', title = ''Amazing Grace'', artist = ''JohnNewton''\<rparr>,
      \<lparr>number = ''7'', title = ''Closer'', artist = ''TheChainsmokers''\<rparr>]"

definition song12 :: song where
  "song12 = \<lparr>number = ''12'', title = ''Amazing Grace'', artist = ''JohnNewton''\<rparr>"

definition demo_state :: app_state where
  "demo_state = (initial_state Map.empty [])\<lparr>songs := demo_songs\<rparr>"

text \<open>A catalog of sixty songs, more than one page.\<close>

definition sixty_songs :: "song list" where
  "sixty_songs =
     map (\<lambda>n. \<lparr>number = show_nat n, title = ''Song'' @ show_nat n, artist = ''Artist''\<rparr>) [0..<60]"

definition sixty_state :: app_state where
  "sixty_state = (initial_state Map.empty [])\<lparr>songs := sixty_songs\<rparr>"

text \<open>
  Readers for the two stored values that accept the serialization of the example
  catalog and of the empty favourites, as \<open>JSON.parse\<close> does.
\<close>

definition demo_parseSongs :: "string \<Rightarrow> song list option" where
  "demo_parseSongs str = (if str = json_songs demo_songs then Some demo_songs else None)"

definition demo_parseFavorites :: "string \<Rightarrow> string list option" where
  "demo_parseFavorites str = (if str = json_strings [] then Some [] else None)"

text \<open>
  A request for a pinned asset, its response from the network, and a response that
  no cache accepts.
\<close>

definition demo_request :: request where
  "demo_request =
     \<lparr>url = ''https://songs.example/song-book/style.css'', req_method = ''GET'', req_headers = []\<rparr>"

definition demo_response :: response where
  "demo_response =
     \<lparr>status = 200, statusText = ''OK'', rtype = Basic,
      headers = [(''Content-Type'', ''text/css'')], body = ''body { margin: 0 }''\<rparr>"

definition demo_vary_response :: response where
  "demo_vary_response =
     \<lparr>status = 200, statusText = ''OK'', rtype = Basic,
      headers = [(''Content-Type'', ''text/css''), (''Vary'', ''*'')], body = ''body { margin: 0 }''\<rparr>"

definition demo_cached :: sw_state where
  "demo_cached =
     \<lparr>caches = [(''songbook-v1.4'', []), (CACHE_NAME, [(demo_request, demo_response)])],
      network_log = [], pending = [], unhandled = []\<rparr>"

definition demo_uncached :: sw_state where
  "demo_uncached =
     \<lparr>caches = [(''songbook-v1.4'', [])], network_log = [], pending = [], unhandled = []\<rparr>"

text \<open>
  The example catalog on the screen, and the favourites view after song 12 was marked.
\<close>

definition demo_rendered :: app_state where
  "demo_rendered = renderSongs codeUnitCompare demo_htmlOther demo_state"

definition demo_favorites_view :: app_state where
  "demo_favorites_view =
     renderSongs codeUnitCompare demo_htmlOther
       ((toggleFavorite demo_cssOther ''12'' demo_state)\<lparr>currentFilter := FilterFavorites\<rparr>)"

text \<open>
  A catalog with one song whose number has a double quote between letters, on the
  screen; and a catalog with one song whose number opens a single-quoted attribute
  value behind a double quote.
\<close>

definition quote_song :: song where
  "quote_song = \<lparr>number = [CHR ''x'', CHR 0x22, CHR ''y''], title = ''Quote'', artist = ''Nobody''\<rparr>"

definition quote_rendered :: app_state where
  "quote_rendered =
     renderSongs codeUnitCompare demo_htmlOther ((initial_state Map.empty [])\<lparr>songs := [quote_song]\<rparr>)"

definition broken_song :: song where
  "broken_song =
     \<lparr>number = [CHR ''7'', CHR 0x22, CHR '' '', CHR ''x'', CHR ''='', CHR 0x27],
      title = ''Broken'', artist = ''Nobody''\<rparr>"

definition broken_state :: app_state where
  "broken_state = (initial_state Map.empty [])\<lparr>songs := [broken_song]\<rparr>"

section \<open>Properties of strings\<close>

lemma isWhiteSpace_lowerChar: "isWhiteSpace (lowerChar c) = isWhiteSpace c"
proof -
  have "(of_char c :: nat) < 256" by simp
  then show ?thesis
    unfolding isWhiteSpace_def lowerChar_def Let_def
    by (auto simp: of_char_of)
qed

lemma lowerChar_idem: "lowerChar (lowerChar c) = lowerChar c"
proof -
  have "(of_char c :: nat) < 256" by simp
  then show ?thesis
    unfolding lowerChar_def Let_def
    by (auto simp: of_char_of)
qed

lemma filter_dropWhile_disjoint:
  "(\<And>x. Q x \<Longrightarrow> \<not> P x) \<Longrightarrow> filter P (dropWhile Q xs) = filter P xs"
  by (induction xs) auto

lemma removeWhiteSpace_trim: "removeWhiteSpace (trim s) = removeWhiteSpace s"
proof -
  have "filter (\<lambda>c. \<not> isWhiteSpace c) (dropWhile isWhiteSpace xs) = filter (\<lambda>c. \<not> isWhiteSpace c) xs" for xs
    by (rule filter_dropWhile_disjoint) simp
  then show ?thesis
    by (simp add: removeWhiteSpace_def trim_def flip: rev_filter)
qed

lemma removeWhiteSpace_toLowerCase:
  "removeWhiteSpace (toLowerCase s) = toLowerCase (removeWhiteSpace s)"
  by (induction s) (auto simp: removeWhiteSpace_def toLowerCase_def isWhiteSpace_lowerChar)

lemma toLowerCase_idem: "toLowerCase (toLowerCase s) = toLowerCase s"
  by (simp add: toLowerCase_def lowerChar_idem)

lemma trim_toLowerCase: "trim (toLowerCase s) = toLowerCase (trim s)"
  by (simp add: trim_def toLowerCase_def dropWhile_map rev_map comp_def isWhiteSpace_lowerChar)

lemma normalize_searchTerm:
  "normalizeForSearch (trim (toLowerCase raw)) = normalizeForSearch raw"
proof -
  have "removeWhiteSpace (toLowerCase (trim (toLowerCase raw))) = removeWhiteSpace (toLowerCase raw)"
    by (simp add: trim_toLowerCase toLowerCase_idem removeWhiteSpace_toLowerCase removeWhiteSpace_trim)
  moreover have "removeWhiteSpace (toLowerCase raw) = []" if "trim (toLowerCase raw) = []"
    using removeWhiteSpace_trim[of "toLowerCase raw"] that by (simp add: removeWhiteSpace_def)
  ultimately show ?thesis
    by (auto simp: normalizeForSearch_def removeWhiteSpace_def toLowerCase_def)
qed

lemma startsWith_iff: "startsWith s p \<longleftrightarrow> (\<exists>r. s = p @ r)"
  unfolding startsWith_def
  by (metis append_eq_conv_conj append_take_drop_id)

lemma str_includes_iff: "str_includes h n \<longleftrightarrow> (\<exists>p r. h = p @ n @ r)"
proof (induction h)
  case Nil then show ?case by simp
next
  case (Cons c cs)
  show ?case
  proof
    assume "str_includes (c # cs) n"
    then consider "startsWith (c # cs) n" | "str_includes cs n" by auto
    then show "\<exists>p r. c # cs = p @ n @ r"
    proof cases
      case 1 then obtain r where "c # cs = n @ r" by (auto simp: startsWith_iff)
      then have "c # cs = [] @ n @ r" by simp
      then show ?thesis by blast
    next
      case 2 then obtain p r where "cs = p @ n @ r" using Cons.IH by blast
      then have "c # cs = (c # p) @ n @ r" by simp
      then show ?thesis by blast
    qed
  next
    assume "\<exists>p r. c # cs = p @ n @ r"
    then obtain p r where pr: "c # cs = p @ n @ r" by blast
    show "str_includes (c # cs) n"
    proof (cases p)
      case Nil
      then have "startsWith (c # cs) n" using pr startsWith_iff[of "c # cs" n] by auto
      then show ?thesis by (simp del: startsWith_iff)
    next
      case (Cons a p') then have "cs = p' @ n @ r" using pr by simp
      then show ?thesis using Cons.IH by auto
    qed
  qed
qed






section \<open>Properties of sorting\<close>

lemma consistent_total:
  assumes "consistentComparator c" "\<not> c x y \<le> 0"
  shows "c y x \<le> 0"
proof -
  have "(c y x < 0) = (0 < c x y)" using assms(1) unfolding consistentComparator_def by blast
  with assms(2) show ?thesis by simp
qed

lemma consistent_trans: "consistentComparator c \<Longrightarrow> c x y \<le> 0 \<Longrightarrow> c y z \<le> 0 \<Longrightarrow> c x z \<le> 0"
  unfolding consistentComparator_def by blast

lemma consistent_zero_iff:
  assumes "consistentComparator c"
  shows "c x y = 0 \<longleftrightarrow> c x y \<le> 0 \<and> c y x \<le> 0"
proof -
  have "(c y x < 0) = (0 < c x y)" "(c x y < 0) = (0 < c y x)"
    using assms unfolding consistentComparator_def by blast+
  then show ?thesis by linarith
qed

lemma consistent_on_field:
  assumes "consistentComparator c"
  shows "consistentComparator (\<lambda>a b. c (f a) (f b))"
proof -
  have 1: "(c x y < 0) = (0 < c y x)" for x y
    using assms unfolding consistentComparator_def by blast
  have 2: "c x z \<le> 0" if "c x y \<le> 0" "c y z \<le> 0" for x y z
    using assms that unfolding consistentComparator_def by blast
  show ?thesis
    unfolding consistentComparator_def
  proof (intro conjI allI impI)
    fix a b show "(c (f a) (f b) < 0) = (0 < c (f b) (f a))" by (rule 1)
  next
    fix a b d assume "c (f a) (f b) \<le> 0 \<and> c (f b) (f d) \<le> 0"
    then show "c (f a) (f d) \<le> 0" using 2 by blast
  qed
qed

lemma consistent_compareSongs:
  assumes "consistentComparator localeCompare"
  shows "consistentComparator (compareSongs localeCompare key)"
proof (cases key)
  case SortTitle
  have "compareSongs localeCompare key = (\<lambda>a b. localeCompare (title a) (title b))"
    by (intro ext) (simp add: compareSongs_def SortTitle)
  then show ?thesis using consistent_on_field[OF assms, of title] by simp
next
  case SortArtist
  have "compareSongs localeCompare key = (\<lambda>a b. localeCompare (artist a) (artist b))"
    by (intro ext) (simp add: compareSongs_def SortArtist)
  then show ?thesis using consistent_on_field[OF assms, of artist] by simp
qed

lemma mset_insertSorted: "mset (insertSorted c x ys) = add_mset x (mset ys)"
  by (induction ys) auto

lemma mset_array_sort: "mset (array_sort c xs) = mset xs"
  by (induction xs) (auto simp: mset_insertSorted)

lemma set_insertSorted: "set (insertSorted c x ys) = insert x (set ys)"
  by (induction ys) auto

lemma sorted_insertSorted:
  assumes "consistentComparator c" "sorted_wrt (\<lambda>a b. c a b \<le> 0) ys"
  shows "sorted_wrt (\<lambda>a b. c a b \<le> 0) (insertSorted c x ys)"
  using assms(2)
proof (induction ys)
  case Nil then show ?case by simp
next
  case (Cons y ys)
  have ys: "sorted_wrt (\<lambda>a b. c a b \<le> 0) ys" and y: "\<forall>z\<in>set ys. c y z \<le> 0"
    using Cons.prems by simp_all
  show ?case
  proof (cases "c x y \<le> 0")
    case True
    have "c x z \<le> 0" if "z \<in> set ys" for z
      using consistent_trans[OF assms(1) True] y that by blast
    with True Cons.prems show ?thesis by simp
  next
    case False
    then have "c y x \<le> 0" by (rule consistent_total[OF assms(1)])
    moreover have "sorted_wrt (\<lambda>a b. c a b \<le> 0) (insertSorted c x ys)"
      using Cons.IH ys by blast
    ultimately show ?thesis using False y by (simp add: set_insertSorted)
  qed
qed

lemma sorted_array_sort:
  "consistentComparator c \<Longrightarrow> sorted_wrt (\<lambda>a b. c a b \<le> 0) (array_sort c xs)"
  by (induction xs) (simp_all add: sorted_insertSorted)

lemma array_sort_sorted_id: "sorted_wrt (\<lambda>a b. c a b \<le> 0) xs \<Longrightarrow> array_sort c xs = xs"
proof (induction xs)
  case Nil then show ?case by simp
next
  case (Cons x xs)
  then show ?case by (cases xs) auto
qed

lemma filter_tie_insertSorted:
  assumes "consistentComparator c"
  shows "filter (\<lambda>y. c z y = 0) (insertSorted c x ys) =
         (if c z x = 0 then x # filter (\<lambda>y. c z y = 0) ys else filter (\<lambda>y. c z y = 0) ys)"
proof (induction ys)
  case Nil then show ?case by simp
next
  case (Cons y ys)
  show ?case
  proof (cases "c x y \<le> 0")
    case True then show ?thesis by simp
  next
    case False
    have "\<not> (c z x = 0 \<and> c z y = 0)"
    proof
      assume h: "c z x = 0 \<and> c z y = 0"
      then have "c x z \<le> 0" "c z y \<le> 0"
        using consistent_zero_iff[OF assms] by auto
      then have "c x y \<le> 0" by (rule consistent_trans[OF assms])
      then show False using False by simp
    qed
    with False Cons show ?thesis by simp
  qed
qed

lemma filter_tie_array_sort:
  "consistentComparator c \<Longrightarrow>
   filter (\<lambda>y. c z y = 0) (array_sort c xs) = filter (\<lambda>y. c z y = 0) xs"
  by (induction xs) (simp_all add: filter_tie_insertSorted)

lemma set_array_sort: "set (array_sort c xs) = set xs"
  by (induction xs) (auto simp: set_insertSorted)

lemma codeUnitCompare_sign: "(codeUnitCompare a b < 0) = (0 < codeUnitCompare b a)"
  by (induction a b rule: codeUnitCompare.induct) simp_all

lemma codeUnitCompare_trans:
  "codeUnitCompare a b \<le> 0 \<Longrightarrow> codeUnitCompare b d \<le> 0 \<Longrightarrow> codeUnitCompare a d \<le> 0"
proof (induction a b arbitrary: d rule: codeUnitCompare.induct)
  case 1
  then show ?case by simp
next
  case (2 b bs)
  then show ?case by (cases d) simp_all
next
  case (3 a as)
  then show ?case by simp
next
  case (4 a as b bs)
  show ?case
  proof (cases d)
    case Nil
    with 4(3) show ?thesis by simp
  next
    case (Cons e es)
    let ?x = "of_char a :: nat" and ?y = "of_char b :: nat" and ?z = "of_char e :: nat"
    from 4(2) have ab: "?x \<le> ?y" by (simp split: if_splits)
    from 4(3) Cons have be: "?y \<le> ?z" by (simp split: if_splits)
    show ?thesis
    proof (cases "?x < ?z")
      case True
      then show ?thesis using Cons by simp
    next
      case False
      with ab be have eq: "?x = ?y" "?y = ?z" by linarith+
      then have e1: "a = b" "b = e" by simp_all
      have "codeUnitCompare as bs \<le> 0" using 4(2) e1 by simp
      moreover have "codeUnitCompare bs es \<le> 0" using 4(3) Cons e1 by simp
      ultimately have "codeUnitCompare as es \<le> 0" using 4(1)[of es] e1 by simp
      then show ?thesis using Cons e1 by simp
    qed
  qed
qed

lemma consistent_codeUnitCompare: "consistentComparator codeUnitCompare"
  unfolding consistentComparator_def
proof (intro conjI allI impI)
  fix a b show "(codeUnitCompare a b < 0) = (0 < codeUnitCompare b a)"
    by (rule codeUnitCompare_sign)
next
  fix a b d assume "codeUnitCompare a b \<le> 0 \<and> codeUnitCompare b d \<le> 0"
  then show "codeUnitCompare a d \<le> 0" using codeUnitCompare_trans by blast
qed

lemma length_array_sort: "length (array_sort c xs) = length xs"
  using mset_array_sort[of c xs] by (metis size_mset)

section \<open>Properties of the catalog pipeline\<close>

lemma createFragment_ok:
  "(\<forall>sg \<in> set xs. hasButton h sg) \<Longrightarrow>
   createFragment h favs xs = Inr (map (\<lambda>sg. SongItem (renderedElement h favs sg)) xs)"
proof (induction xs)
  case Nil
  then show ?case by simp
next
  case (Cons sg xs)
  then obtain v where v: "htmlButton h (number sg) = Button v"
    by (cases "htmlButton h (number sg)") (auto simp: hasButton_def)
  then have "createSongElement h favs sg = Inr (renderedElement h favs sg)"
    by (simp add: createSongElement_def renderedElement_def)
  with Cons show ?case by simp
qed

lemma createFragment_fails:
  "\<exists>sg \<in> set xs. \<not> hasButton h sg \<Longrightarrow> createFragment h favs xs = Inl TypeError"
proof (induction xs)
  case Nil
  then show ?case by simp
next
  case (Cons sg xs)
  show ?case
  proof (cases "htmlButton h (number sg)")
    case NoButton
    then show ?thesis by (simp add: createSongElement_def)
  next
    case (Button v)
    then have "\<exists>sg \<in> set xs. \<not> hasButton h sg"
      using Cons.prems by (auto simp: hasButton_def)
    from Cons.IH[OF this] Button show ?thesis by (simp add: createSongElement_def)
  qed
qed

lemma songs_renderSongs: "songs (renderSongs lc h s) = songs s"
  by (simp add: renderSongs_def renderFrame_def Let_def updateStats_def
      renderSongsVirtual_def renderSongsImmediate_def split: sum.splits)

lemma localStorage_renderSongs: "localStorage (renderSongs lc h s) = localStorage s"
  by (simp add: renderSongs_def renderFrame_def Let_def updateStats_def
      renderSongsVirtual_def renderSongsImmediate_def split: sum.splits)

lemma favorites_renderSongs: "favorites (renderSongs lc h s) = favorites s"
  by (simp add: renderSongs_def renderFrame_def Let_def updateStats_def
      renderSongsVirtual_def renderSongsImmediate_def split: sum.splits)



lemma songItems_append: "songItems (xs @ ys) = songItems xs @ songItems ys"
  by (induction xs rule: songItems.induct) simp_all

lemma songItems_map: "songItems (map (\<lambda>sg. SongItem (f sg)) xs) = map f xs"
  by (induction xs) simp_all

lemma findLoadMore_map: "findLoadMore (map (\<lambda>sg. SongItem (f sg)) xs @ rest) = findLoadMore rest"
  by (induction xs) simp_all

lemma insertBeforeLoadMore_map:
  "insertBeforeLoadMore (map (\<lambda>sg. SongItem (f sg)) xs @ LoadMore b # rest) fragment container =
   map (\<lambda>sg. SongItem (f sg)) xs @ fragment @ container @ rest"
  by (induction xs) simp_all

lemma clickLoadMore_no_button:
  "findLoadMore (songList s) = None \<Longrightarrow> (clickLoadMore h ^^ n) s = s"
  by (induction n) (simp_all add: clickLoadMore_def)

lemma filteredSongs_cong:
  "songs s' = songs s \<Longrightarrow> favorites s' = favorites s \<Longrightarrow> currentFilter s' = currentFilter s \<Longrightarrow>
   currentSort s' = currentSort s \<Longrightarrow> filteredSongs lc term s' = filteredSongs lc term s"
  by (simp add: filteredSongs_def filterSongs_def matchesFavorites_def)

lemma renderSongs_frame:
  assumes "\<not> isRendering s"
  shows "renderSongs lc h s =
     renderFrame lc h (trim (toLowerCase (searchInput s)))
       (if length (songs s) > 100 then s\<lparr>isRendering := True, songList := [Loading]\<rparr>
        else s\<lparr>isRendering := True\<rparr>)"
  using assms by (simp add: renderSongs_def Let_def)

lemma songList_renderSongs_empty:
  assumes "\<not> isRendering s"
    and "filteredSongs lc (trim (toLowerCase (searchInput s))) s = []"
  shows "songList (renderSongs lc h s) = [if songs s = [] then EmptyNoSongs else EmptyNoMatch]"
proof -
  let ?st = "trim (toLowerCase (searchInput s))"
  let ?s2 = "if length (songs s) > 100 then s\<lparr>isRendering := True, songList := [Loading]\<rparr>
             else s\<lparr>isRendering := True\<rparr>"
  have f: "filteredSongs lc ?st ?s2 = filteredSongs lc ?st s"
    by (rule filteredSongs_cong) simp_all
  show ?thesis
    unfolding renderSongs_frame[OF assms(1)] renderFrame_def Let_def f
    using assms(2) by (simp add: updateStats_def)
qed

lemma songList_renderSongs:
  assumes "\<not> isRendering s"
    and "\<forall>sg \<in> set (filteredSongs lc (trim (toLowerCase (searchInput s))) s). hasButton h sg"
    and "filteredSongs lc (trim (toLowerCase (searchInput s))) s \<noteq> []"
  shows "songList (renderSongs lc h s) =
           pagedList h (favorites s) (filteredSongs lc (trim (toLowerCase (searchInput s))) s)
             ITEMS_PER_PAGE"
proof -
  let ?st = "trim (toLowerCase (searchInput s))"
  let ?filtered = "filteredSongs lc ?st s"
  let ?s2 = "if length (songs s) > 100 then s\<lparr>isRendering := True, songList := [Loading]\<rparr>
             else s\<lparr>isRendering := True\<rparr>"
  have f: "filteredSongs lc ?st ?s2 = ?filtered"
    by (rule filteredSongs_cong) simp_all
  have all: "createFragment h (favorites s) ?filtered =
      Inr (map (\<lambda>sg. SongItem (renderedElement h (favorites s) sg)) ?filtered)"
    by (rule createFragment_ok[OF assms(2)])
  have "\<forall>sg \<in> set (take ITEMS_PER_PAGE ?filtered). hasButton h sg"
    using assms(2) by (meson in_set_takeD)
  then have page: "createFragment h (favorites s) (take ITEMS_PER_PAGE ?filtered) =
      Inr (map (\<lambda>sg. SongItem (renderedElement h (favorites s) sg)) (take ITEMS_PER_PAGE ?filtered))"
    by (rule createFragment_ok)
  show ?thesis
    unfolding renderSongs_frame[OF assms(1)] renderFrame_def Let_def f
    using assms(3) all page
    by (simp add: updateStats_def renderSongsVirtual_def renderSongsImmediate_def slice_def Let_def
        pagedList_def)
qed

lemma clickLoadMore_pagedList:
  assumes "songList s = pagedList h (favorites s) filtered k" "0 < ITEMS_PER_PAGE"
    and "\<forall>sg \<in> set filtered. hasButton h sg"
  shows "songList (clickLoadMore h s) =
           pagedList h (favorites s) filtered (min (k + ITEMS_PER_PAGE) (length filtered)) \<and>
         favorites (clickLoadMore h s) = favorites s"
proof (cases "k < length filtered")
  case False
  then have "findLoadMore (songList s) = None"
    using assms(1) findLoadMore_map[of "renderedElement h (favorites s)" "take k filtered" "[]"]
    by (simp add: pagedList_def)
  then have "clickLoadMore h s = s" by (simp add: clickLoadMore_def)
  moreover have "pagedList h (favorites s) filtered (min (k + ITEMS_PER_PAGE) (length filtered)) =
      pagedList h (favorites s) filtered k"
    using False by (simp add: pagedList_def min_def)
  ultimately show ?thesis using assms(1) by simp
next
  case True
  let ?b = "\<lparr>data_loaded = k, data_total = length filtered, all_songs = filtered\<rparr>"
  let ?f = "renderedElement h (favorites s)"
  have sl: "songList s = map (\<lambda>sg. SongItem (?f sg)) (take k filtered) @ LoadMore ?b # []"
    using assms(1) True by (simp add: pagedList_def)
  have fb: "findLoadMore (songList s) = Some ?b"
    unfolding sl findLoadMore_map by simp
  have len: "length (slice filtered k (k + ITEMS_PER_PAGE)) = min ITEMS_PER_PAGE (length filtered - k)"
    by (simp add: slice_def min_def)
  have k': "k + min ITEMS_PER_PAGE (length filtered - k) = min (k + ITEMS_PER_PAGE) (length filtered)"
    using True by (auto simp: min_def)
  have tk: "take k filtered @ slice filtered k (k + ITEMS_PER_PAGE) =
        take (min (k + ITEMS_PER_PAGE) (length filtered)) filtered"
    by (simp add: slice_def take_add min_def)
  have "set (slice filtered k (k + ITEMS_PER_PAGE)) \<subseteq> set filtered"
    unfolding slice_def by (meson in_set_dropD in_set_takeD subsetI)
  then have "\<forall>sg \<in> set (slice filtered k (k + ITEMS_PER_PAGE)). hasButton h sg"
    using assms(3) by blast
  then have batch: "createFragment h (favorites s) (slice filtered k (k + ITEMS_PER_PAGE)) =
      Inr (map (\<lambda>sg. SongItem (?f sg)) (slice filtered k (k + ITEMS_PER_PAGE)))"
    by (rule createFragment_ok)
  have "songList (clickLoadMore h s) =
      map (\<lambda>sg. SongItem (?f sg)) (take k filtered) @
      map (\<lambda>sg. SongItem (?f sg)) (slice filtered k (k + ITEMS_PER_PAGE)) @
      (if min (k + ITEMS_PER_PAGE) (length filtered) \<ge> length filtered then []
       else [LoadMore (?b\<lparr>data_loaded := min (k + ITEMS_PER_PAGE) (length filtered)\<rparr>)]) @ []"
    unfolding clickLoadMore_def fb option.case loadMoreSongs_def Let_def
    by (simp add: batch sl insertBeforeLoadMore_map len k' del: append_Nil2)
  also have "\<dots> = pagedList h (favorites s) filtered (min (k + ITEMS_PER_PAGE) (length filtered))"
    unfolding pagedList_def
    by (simp add: tk flip: map_append)
  finally have 1: "songList (clickLoadMore h s) =
      pagedList h (favorites s) filtered (min (k + ITEMS_PER_PAGE) (length filtered))" .
  have 2: "favorites (clickLoadMore h s) = favorites s"
    by (simp add: clickLoadMore_def loadMoreSongs_def Let_def split: option.splits sum.splits)
  from 1 2 show ?thesis by simp
qed

lemma clicks_pagedList:
  assumes "songList s = pagedList h (favorites s) filtered ITEMS_PER_PAGE" "0 < ITEMS_PER_PAGE"
    and "\<forall>sg \<in> set filtered. hasButton h sg"
  shows "songList ((clickLoadMore h ^^ n) s) =
           pagedList h (favorites s) filtered (min (ITEMS_PER_PAGE * (n + 1)) (length filtered)) \<and>
         favorites ((clickLoadMore h ^^ n) s) = favorites s"
proof (induction n)
  case 0
  show ?case using assms(1) by (simp add: pagedList_def min_def)
next
  case (Suc n)
  let ?s = "(clickLoadMore h ^^ n) s"
  let ?k = "min (ITEMS_PER_PAGE * (n + 1)) (length filtered)"
  have "songList ?s = pagedList h (favorites ?s) filtered ?k" using Suc by simp
  from clickLoadMore_pagedList[OF this assms(2) assms(3)]
  have "songList (clickLoadMore h ?s) =
          pagedList h (favorites s) filtered (min (?k + ITEMS_PER_PAGE) (length filtered))"
    and "favorites (clickLoadMore h ?s) = favorites s" using Suc by simp_all
  moreover have "min (?k + ITEMS_PER_PAGE) (length filtered) =
      min (ITEMS_PER_PAGE * (Suc n + 1)) (length filtered)"
    by (simp add: min_def)
  ultimately show ?case by simp
qed

lemma songItems_pagedList:
  "songItems (pagedList h favs filtered k) = map (renderedElement h favs) (take k filtered)"
  by (simp add: pagedList_def songItems_append songItems_map)

lemma take_min_length: "take (min n (length xs)) xs = take n xs"
  by (simp add: min_def)

lemma take_add_slice:
  "take (a + b) xs = take a xs @ slice xs (min a (length xs)) (min a (length xs) + b)"
proof (cases "a \<le> length xs")
  case True
  then show ?thesis by (simp add: slice_def take_add min_def)
next
  case False
  then show ?thesis by (simp add: slice_def min_def)
qed

lemma rendered_after_clicks:
  assumes "\<not> isRendering s"
    and "\<forall>sg \<in> set (filteredSongs lc (trim (toLowerCase (searchInput s))) s). hasButton h sg"
  shows "songItems (songList ((clickLoadMore h ^^ n) (renderSongs lc h s))) =
         map (renderedElement h (favorites s))
             (take (ITEMS_PER_PAGE * (n + 1)) (filteredSongs lc (trim (toLowerCase (searchInput s))) s))"
proof -
  let ?filtered = "filteredSongs lc (trim (toLowerCase (searchInput s))) s"
  let ?r = "renderSongs lc h s"
  have pos: "0 < ITEMS_PER_PAGE" by (simp add: ITEMS_PER_PAGE_def)
  show ?thesis
  proof (cases "?filtered = []")
    case True
    then have sl: "songList ?r = [if songs s = [] then EmptyNoSongs else EmptyNoMatch]"
      using songList_renderSongs_empty[OF assms(1), of lc h] by simp
    then have "findLoadMore (songList ?r) = None" by simp
    then have "(clickLoadMore h ^^ n) ?r = ?r" by (rule clickLoadMore_no_button)
    then show ?thesis using sl True by simp
  next
    case False
    have "songList ?r = pagedList h (favorites s) ?filtered ITEMS_PER_PAGE"
      by (rule songList_renderSongs[OF assms False])
    then have "songList ?r = pagedList h (favorites ?r) ?filtered ITEMS_PER_PAGE"
      by (simp add: favorites_renderSongs)
    from clicks_pagedList[OF this pos assms(2), of n]
    have "songList ((clickLoadMore h ^^ n) ?r) =
        pagedList h (favorites s) ?filtered (min (ITEMS_PER_PAGE * (n + 1)) (length ?filtered))"
      by (simp add: favorites_renderSongs)
    then show ?thesis
      by (simp only: songItems_pagedList take_min_length)
  qed
qed

lemma filterSongs_all:
  "currentFilter s = FilterAll \<Longrightarrow> normalizeForSearch term = [] \<Longrightarrow> filterSongs term s = songs s"
  by (simp add: filterSongs_def matchesSearch_def matchesFavorites_def)

lemma filteredSongs_subset: "set (filteredSongs lc st s) \<subseteq> set (songs s)"
  by (auto simp: filteredSongs_def set_array_sort filterSongs_def)

text \<open>
  Pagination where every song of the catalog keeps its favourite button in the markup:
  after a render that no render in progress blocks, and \<open>N\<close> clicks on "load more",
  the song items on the page are the elements of the first
  \<open>min (ITEMS_PER_PAGE * (N + 1)) total\<close> songs of the filtered and sorted array, and
  the next click appends the next slice of the same array.
\<close>

lemma load_more_pagination:
  assumes "\<not> isRendering s" and "\<forall>sg \<in> set (songs s). hasButton htmlOther sg"
  shows "let filtered = filteredSongs localeCompare (trim (toLowerCase (searchInput s))) s;
             rendered = (\<lambda>n. songItems (songList ((clickLoadMore htmlOther ^^ n)
                                (renderSongs localeCompare htmlOther s))))
         in ITEMS_PER_PAGE = 50 \<and>
            rendered N = map (renderedElement htmlOther (favorites s))
                           (take (min (ITEMS_PER_PAGE * (N + 1)) (length filtered)) filtered) \<and>
            length (rendered N) = min (ITEMS_PER_PAGE * (N + 1)) (length filtered) \<and>
            rendered (Suc N) = rendered N @
               map (renderedElement htmlOther (favorites s))
                   (slice filtered (length (rendered N)) (length (rendered N) + ITEMS_PER_PAGE))"
proof -
  let ?filtered = "filteredSongs localeCompare (trim (toLowerCase (searchInput s))) s"
  let ?cse = "renderedElement htmlOther (favorites s)"
  let ?P = "ITEMS_PER_PAGE"
  have b: "\<forall>sg \<in> set ?filtered. hasButton htmlOther sg"
    using assms(2) filteredSongs_subset by blast
  have r: "songItems (songList ((clickLoadMore htmlOther ^^ n) (renderSongs localeCompare htmlOther s))) =
      map ?cse (take (?P * (n + 1)) ?filtered)" for n
    by (rule rendered_after_clicks[OF assms(1) b])
  have len: "length (map ?cse (take (?P * (N + 1)) ?filtered)) = min (?P * (N + 1)) (length ?filtered)"
    by (simp add: min_def)
  have app: "take (?P * (Suc N + 1)) ?filtered =
      take (?P * (N + 1)) ?filtered @
      slice ?filtered (min (?P * (N + 1)) (length ?filtered))
                      (min (?P * (N + 1)) (length ?filtered) + ?P)"
    using take_add_slice[of "?P * (N + 1)" ?P ?filtered] by (simp add: add.commute)
  have 1: "map ?cse (take (min (?P * (N + 1)) (length ?filtered)) ?filtered) =
      map ?cse (take (?P * (N + 1)) ?filtered)"
    by (simp only: take_min_length)
  have 2: "map ?cse (take (?P * (Suc N + 1)) ?filtered) =
      map ?cse (take (?P * (N + 1)) ?filtered) @
      map ?cse (slice ?filtered (min (?P * (N + 1)) (length ?filtered))
                      (min (?P * (N + 1)) (length ?filtered) + ?P))"
    by (simp only: app map_append)
  have 3: "ITEMS_PER_PAGE = 50" by (simp add: ITEMS_PER_PAGE_def)
  show ?thesis
    unfolding Let_def r len 1 using 2 3 by blast
qed

section \<open>Properties of the favourites\<close>

lemma toggleFavorite_shape:
  "\<exists>ns errs. toggleFavorite cssOther x s =
     (updateStats (saveToStorage (s\<lparr>favorites :=
        (if set_has (favorites s) x then set_delete (favorites s) x
         else set_add (favorites s) x)\<rparr>)))\<lparr>songList := ns, uncaught := errs\<rparr>"
proof -
  let ?s3 = "updateStats (saveToStorage (s\<lparr>favorites :=
        (if set_has (favorites s) x then set_delete (favorites s) x
         else set_add (favorites s) x)\<rparr>))"
  have a: "?s3\<lparr>uncaught := errs\<rparr> = ?s3\<lparr>songList := songList ?s3, uncaught := errs\<rparr>" for errs
    by simp
  have b: "?s3\<lparr>songList := ns\<rparr> = ?s3\<lparr>songList := ns, uncaught := uncaught ?s3\<rparr>" for ns
    by simp
  have "toggleFavorite cssOther x s =
     (case selectorFor x of
        InvalidSelector \<Rightarrow> ?s3\<lparr>uncaught := uncaught ?s3 @ [DOMSyntaxError]\<rparr>
      | SelectsValue attrValue \<Rightarrow>
          ?s3\<lparr>songList := setActiveOfFirst attrValue (set_has (favorites ?s3) x) (songList ?s3)\<rparr>
      | OtherSelector \<Rightarrow>
          (case cssOther x (set_has (favorites ?s3) x) (songList ?s3) of
             Inl e \<Rightarrow> ?s3\<lparr>uncaught := uncaught ?s3 @ [e]\<rparr>
           | Inr ns \<Rightarrow> ?s3\<lparr>songList := ns\<rparr>))"
    unfolding toggleFavorite_def Let_def ..
  then show ?thesis
    by (cases "selectorFor x"; cases "cssOther x (set_has (favorites ?s3) x) (songList ?s3)")
       (simp_all only: selector.case sum.case, (metis a b)+)
qed

lemma favorites_toggleFavorite:
  "favorites (toggleFavorite cssOther x s) =
     (if x \<in> set (favorites s) then removeAll x (favorites s) else favorites s @ [x])"
proof -
  obtain ns errs where "toggleFavorite cssOther x s =
     (updateStats (saveToStorage (s\<lparr>favorites :=
        (if set_has (favorites s) x then set_delete (favorites s) x
         else set_add (favorites s) x)\<rparr>)))\<lparr>songList := ns, uncaught := errs\<rparr>"
    using toggleFavorite_shape by blast
  then show ?thesis
    by (simp add: saveToStorage_def updateStats_def set_has_def set_delete_def set_add_def
        del: show_nat.simps)
qed

lemma localStorage_toggleFavorite:
  "localStorage (toggleFavorite cssOther x s) =
     (localStorage s)
       (STORAGE_KEY_SONGS \<mapsto> json_songs (songs s),
        STORAGE_KEY_FAVORITES \<mapsto> json_strings (favorites (toggleFavorite cssOther x s)))"
proof -
  obtain ns errs where "toggleFavorite cssOther x s =
     (updateStats (saveToStorage (s\<lparr>favorites :=
        (if set_has (favorites s) x then set_delete (favorites s) x
         else set_add (favorites s) x)\<rparr>)))\<lparr>songList := ns, uncaught := errs\<rparr>"
    using toggleFavorite_shape by blast
  then show ?thesis
    by (simp add: saveToStorage_def updateStats_def del: show_nat.simps)
qed

lemma songs_toggleFavorite: "songs (toggleFavorite cssOther x s) = songs s"
proof -
  obtain ns errs where "toggleFavorite cssOther x s =
     (updateStats (saveToStorage (s\<lparr>favorites :=
        (if set_has (favorites s) x then set_delete (favorites s) x
         else set_add (favorites s) x)\<rparr>)))\<lparr>songList := ns, uncaught := errs\<rparr>"
    using toggleFavorite_shape by blast
  then show ?thesis
    by (simp add: saveToStorage_def updateStats_def del: show_nat.simps)
qed

lemma keys_differ: "STORAGE_KEY_SONGS \<noteq> STORAGE_KEY_FAVORITES"
  by (simp add: STORAGE_KEY_SONGS_def STORAGE_KEY_FAVORITES_def)

lemma favorites_toggle_twice:
  "favorites (toggleFavorite cssOther x (toggleFavorite cssOther x s)) =
     (if x \<in> set (favorites s) then removeAll x (favorites s) @ [x] else favorites s)"
  by (simp add: favorites_toggleFavorite)

lemma favorites_two_favorites: "favorites two_favorites = [''a'', ''b'']"
  by (simp add: two_favorites_def favorites_toggleFavorite initial_state_def)

lemma setActiveOfFirst_skip:
  "(\<And>e. n = SongItem e \<Longrightarrow> el_song_id e \<noteq> x) \<Longrightarrow>
   setActiveOfFirst x v (n # ns) = n # setActiveOfFirst x v ns"
  by (cases n) auto

lemma setActiveOfFirst_none:
  "\<forall>e \<in> set (songItems ns). el_song_id e \<noteq> x \<Longrightarrow> setActiveOfFirst x v ns = ns"
  by (induction ns rule: songItems.induct) simp_all

lemma setActiveOfFirst_first:
  "\<forall>e \<in> set (songItems pre). el_song_id e \<noteq> x \<Longrightarrow> el_song_id e = x \<Longrightarrow>
   setActiveOfFirst x v (pre @ SongItem e # post) = pre @ SongItem (e\<lparr>el_active := v\<rparr>) # post"
  by (induction pre rule: songItems.induct) simp_all

lemma toggleFavorite_other_fields:
  "currentFilter (toggleFavorite cssOther x s) = currentFilter s \<and>
   currentSort (toggleFavorite cssOther x s) = currentSort s \<and>
   currentPage (toggleFavorite cssOther x s) = currentPage s \<and>
   isRendering (toggleFavorite cssOther x s) = isRendering s \<and>
   searchInput (toggleFavorite cssOther x s) = searchInput s"
proof -
  obtain ns errs where "toggleFavorite cssOther x s =
     (updateStats (saveToStorage (s\<lparr>favorites :=
        (if set_has (favorites s) x then set_delete (favorites s) x
         else set_add (favorites s) x)\<rparr>)))\<lparr>songList := ns, uncaught := errs\<rparr>"
    using toggleFavorite_shape by blast
  then show ?thesis
    by (simp add: saveToStorage_def updateStats_def del: show_nat.simps)
qed

lemma counts_toggleFavorite:
  "songCount (toggleFavorite cssOther x s) =
     show_nat (length (songs s)) @ '' '' @ (if length (songs s) = 1 then ''song'' else ''songs'') \<and>
   favoriteCount (toggleFavorite cssOther x s) =
     show_nat (length (favorites (toggleFavorite cssOther x s))) @ '' '' @
     (if length (favorites (toggleFavorite cssOther x s)) = 1 then ''favorite'' else ''favorites'')"
proof -
  obtain ns errs where "toggleFavorite cssOther x s =
     (updateStats (saveToStorage (s\<lparr>favorites :=
        (if set_has (favorites s) x then set_delete (favorites s) x
         else set_add (favorites s) x)\<rparr>)))\<lparr>songList := ns, uncaught := errs\<rparr>"
    using toggleFavorite_shape by blast
  then show ?thesis
    by (simp add: saveToStorage_def updateStats_def del: show_nat.simps)
qed

lemma songList_toggleFavorite:
  assumes "selectorFor x = SelectsValue v"
  shows "songList (toggleFavorite cssOther x s) = setActiveOfFirst v (x \<notin> set (favorites s)) (songList s) \<and>
         uncaught (toggleFavorite cssOther x s) = uncaught s"
  using assms
  by (simp add: toggleFavorite_def Let_def saveToStorage_def updateStats_def set_has_def
      set_delete_def set_add_def)

lemma songList_toggleFavorite_invalid:
  assumes "selectorFor x = InvalidSelector"
  shows "songList (toggleFavorite cssOther x s) = songList s \<and>
         uncaught (toggleFavorite cssOther x s) = uncaught s @ [DOMSyntaxError]"
  using assms
  by (simp add: toggleFavorite_def Let_def saveToStorage_def updateStats_def)

subsection \<open>Plain numbers\<close>

lemma normalizeNewlines_plain: "CHR 0x0D \<notin> set x \<Longrightarrow> normalizeNewlines x = x"
  by (induction x rule: normalizeNewlines.induct) auto

lemma plainNumber_iff:
  "plainNumber x \<longleftrightarrow>
     CHR 0x22 \<notin> set x \<and> CHR ''&'' \<notin> set x \<and> CHR 0x5C \<notin> set x \<and> CHR 0x0A \<notin> set x \<and>
     CHR 0x0D \<notin> set x \<and> CHR 0x0C \<notin> set x \<and> CHR 0x00 \<notin> set x"
  by (induction x) (auto simp: plainNumber_def)

lemma decodeRefs_plain:
  "CHR ''&'' \<notin> set x \<Longrightarrow> CHR 0x00 \<notin> set x \<Longrightarrow> decodeRefs x = Some (map of_char x)"
  by (induction x) (auto simp: attrCodePoint_def)

lemma htmlButton_plain:
  assumes "plainNumber x"
  shows "htmlButton htmlOther x = Button (map of_char x)"
proof -
  have q: "takeWhile (\<lambda>c. c \<noteq> CHR 0x22) x = x" "dropWhile (\<lambda>c. c \<noteq> CHR 0x22) x = []"
    using assms by (auto simp: plainNumber_iff)
  show ?thesis
    unfolding htmlButton_def Let_def q
    using assms by (simp add: plainNumber_iff normalizeNewlines_plain decodeRefs_plain)
qed

lemma of_char_is:
  "(of_char c :: nat) = 34 \<longleftrightarrow> c = CHR 0x22"
  "(of_char c :: nat) = 10 \<longleftrightarrow> c = CHR 0x0A"
  "(of_char c :: nat) = 92 \<longleftrightarrow> c = CHR 0x5C"
proof -
  have "(of_char c :: nat) = of_char (CHR 0x22) \<longleftrightarrow> c = CHR 0x22"
       "(of_char c :: nat) = of_char (CHR 0x0A) \<longleftrightarrow> c = CHR 0x0A"
       "(of_char c :: nat) = of_char (CHR 0x5C) \<longleftrightarrow> c = CHR 0x5C"
    by (metis char_of_char)+
  then show "(of_char c :: nat) = 34 \<longleftrightarrow> c = CHR 0x22"
    "(of_char c :: nat) = 10 \<longleftrightarrow> c = CHR 0x0A"
    "(of_char c :: nat) = 92 \<longleftrightarrow> c = CHR 0x5C"
    by simp_all
qed

lemma consumeString_plain:
  "CHR 0x22 \<notin> set x \<Longrightarrow> CHR 0x5C \<notin> set x \<Longrightarrow> CHR 0x0A \<notin> set x \<Longrightarrow>
   consumeString InString acc (map of_char x @ rest) =
     consumeString InString (acc @ map of_char x) rest"
  by (induction x arbitrary: acc) (auto simp: of_char_is)

lemma selectorFor_plain:
  assumes "plainNumber x"
  shows "selectorFor x = SelectsValue (map of_char x)"
proof -
  have p: "cssPreprocess (x @ [CHR 0x22, CHR '']'']) = map of_char x @ [34, 93]"
    using assms
    by (auto simp: cssPreprocess_def plainNumber_iff normalizeNewlines_plain)
  show ?thesis
    unfolding selectorFor_def p
    using assms consumeString_plain[of x "[]" "[34, 93]"]
    by (simp add: plainNumber_iff)
qed

lemma toggleFavorite_plain:
  assumes "plainNumber x"
  shows "songList (toggleFavorite cssOther x s) =
           setActiveOfFirst (map of_char x) (x \<notin> set (favorites s)) (songList s) \<and>
         uncaught (toggleFavorite cssOther x s) = uncaught s"
  by (rule songList_toggleFavorite[OF selectorFor_plain[OF assms]])

lemma renderedElement_plain:
  assumes "plainNumber (number sg)"
  shows "hasButton htmlOther sg \<and>
         el_song_id (renderedElement htmlOther favs sg) = map of_char (number sg) \<and>
         el_active (renderedElement htmlOther favs sg) = (number sg \<in> set favs)"
  using htmlButton_plain[OF assms, of htmlOther]
  by (simp add: hasButton_def renderedElement_def songElement_def set_has_def)

text \<open>
  For a plain number the toggle marks the button of the first song item whose button
  belongs to the number, according to the new membership, and changes no other item;
  without such an item the list stays as it is.
\<close>

lemma toggleFavorite_plain_marks:
  assumes "plainNumber x" and "songList s = pre @ SongItem e # post"
    and "\<forall>e' \<in> set (songItems pre). el_song_id e' \<noteq> map of_char x"
    and "el_song_id e = map of_char x"
  shows "songList (toggleFavorite cssOther x s) =
           pre @ SongItem (e\<lparr>el_active := (x \<in> set (favorites (toggleFavorite cssOther x s)))\<rparr>) # post"
  using toggleFavorite_plain[OF assms(1), of cssOther s] setActiveOfFirst_first[OF assms(3) assms(4)]
    assms(2)
  by (simp add: favorites_toggleFavorite)

lemma toggleFavorite_plain_absent:
  assumes "plainNumber x"
    and "\<forall>e' \<in> set (songItems (songList s)). el_song_id e' \<noteq> map of_char x"
  shows "songList (toggleFavorite cssOther x s) = songList s"
  using toggleFavorite_plain[OF assms(1), of cssOther s] setActiveOfFirst_none[OF assms(2)]
  by simp

text \<open>
  Sixty songs with plain numbers: fifty are shown at first, all sixty after one click,
  and a further click finds no button.
\<close>

lemma sixty_songs_plain: "list_all (\<lambda>sg. plainNumber (number sg)) sixty_songs"
  by code_simp

lemma load_more_sixty:
  "length (songItems (songList (renderSongs codeUnitCompare htmlOther sixty_state))) = 50 \<and>
   length (songItems (songList ((clickLoadMore htmlOther ^^ 1)
             (renderSongs codeUnitCompare htmlOther sixty_state)))) = 60 \<and>
   length (songItems (songList ((clickLoadMore htmlOther ^^ 2)
             (renderSongs codeUnitCompare htmlOther sixty_state)))) = 60"
proof -
  have r: "\<not> isRendering sixty_state" by (simp add: sixty_state_def initial_state_def)
  have b: "\<forall>sg \<in> set (songs sixty_state). hasButton htmlOther sg"
    using sixty_songs_plain renderedElement_plain[of _ htmlOther]
    by (simp add: sixty_state_def initial_state_def list_all_iff)
  have "filterSongs (trim (toLowerCase (searchInput sixty_state))) sixty_state = songs sixty_state"
    by (rule filterSongs_all)
       (simp_all add: sixty_state_def initial_state_def trim_def toLowerCase_def normalizeForSearch_def)
  then have len: "length (filteredSongs codeUnitCompare (trim (toLowerCase (searchInput sixty_state))) sixty_state) = 60"
    by (simp add: filteredSongs_def length_array_sort sixty_state_def sixty_songs_def)
  show ?thesis
    using load_more_pagination[OF r b, of codeUnitCompare 0]
      load_more_pagination[OF r b, of codeUnitCompare 1]
      load_more_pagination[OF r b, of codeUnitCompare 2] len
    by (simp add: Let_def)
qed

text \<open>
  What a toggle of a plain number does: it flips the membership of the number and of no
  other, stores the favourites, writes both counts, leaves the catalog and the query
  state as they are, throws nothing, and in the song list it marks the button of the
  first item that belongs to the number and nothing else.
\<close>

lemma toggleFavorite_plain_effect:
  assumes "plainNumber x"
  shows "(x \<in> set (favorites (toggleFavorite cssOther x s))) = (x \<notin> set (favorites s)) \<and>
   (\<forall>y. y \<noteq> x \<longrightarrow> (y \<in> set (favorites (toggleFavorite cssOther x s))) = (y \<in> set (favorites s))) \<and>
   localStorage (toggleFavorite cssOther x s) STORAGE_KEY_FAVORITES =
     Some (json_strings (favorites (toggleFavorite cssOther x s))) \<and>
   songs (toggleFavorite cssOther x s) = songs s \<and>
   currentFilter (toggleFavorite cssOther x s) = currentFilter s \<and>
   currentSort (toggleFavorite cssOther x s) = currentSort s \<and>
   searchInput (toggleFavorite cssOther x s) = searchInput s \<and>
   currentPage (toggleFavorite cssOther x s) = currentPage s \<and>
   isRendering (toggleFavorite cssOther x s) = isRendering s \<and>
   uncaught (toggleFavorite cssOther x s) = uncaught s \<and>
   songCount (toggleFavorite cssOther x s) =
     show_nat (length (songs s)) @ '' '' @ (if length (songs s) = 1 then ''song'' else ''songs'') \<and>
   favoriteCount (toggleFavorite cssOther x s) =
     show_nat (length (favorites (toggleFavorite cssOther x s))) @ '' '' @
     (if length (favorites (toggleFavorite cssOther x s)) = 1 then ''favorite'' else ''favorites'') \<and>
   songList (toggleFavorite cssOther x s) =
     setActiveOfFirst (map of_char x) (x \<in> set (favorites (toggleFavorite cssOther x s))) (songList s)"
proof -
  have 1: "(x \<in> set (favorites (toggleFavorite cssOther x s))) = (x \<notin> set (favorites s))"
    by (simp add: favorites_toggleFavorite)
  have 2: "\<forall>y. y \<noteq> x \<longrightarrow> (y \<in> set (favorites (toggleFavorite cssOther x s))) = (y \<in> set (favorites s))"
    by (simp add: favorites_toggleFavorite)
  have 3: "localStorage (toggleFavorite cssOther x s) STORAGE_KEY_FAVORITES =
     Some (json_strings (favorites (toggleFavorite cssOther x s)))"
    by (simp only: localStorage_toggleFavorite fun_upd_same)
  have 4: "songList (toggleFavorite cssOther x s) =
     setActiveOfFirst (map of_char x) (x \<in> set (favorites (toggleFavorite cssOther x s))) (songList s)"
    using toggleFavorite_plain[OF assms, of cssOther s] 1 by simp
  have 5: "uncaught (toggleFavorite cssOther x s) = uncaught s"
    using toggleFavorite_plain[OF assms, of cssOther s] by simp
  show ?thesis
    using 1 2 3 4 5 songs_toggleFavorite[of cssOther x s] toggleFavorite_other_fields[of cssOther x s]
      counts_toggleFavorite[of cssOther x s]
    by blast
qed

text \<open>
  The example catalog on the screen: a toggle of song 7 marks the second button and
  nothing else. In the favourites view, a toggle of the only favourite leaves its item
  on the screen, where a new render would show the "no songs match" state.
\<close>

lemma toggleFavorite_plain_example:
  "map el_song_id (songItems (songList demo_rendered)) = [[49, 50], [55], [51, 48]] \<and>
   map el_active (songItems (songList demo_rendered)) = [False, False, False] \<and>
   map el_active (songItems (songList (toggleFavorite demo_cssOther ''7'' demo_rendered))) =
     [False, True, False] \<and>
   favorites (toggleFavorite demo_cssOther ''7'' demo_rendered) = [''7''] \<and>
   songList (toggleFavorite demo_cssOther ''12'' demo_favorites_view) \<noteq>
     songList (renderSongs codeUnitCompare demo_htmlOther
                 (toggleFavorite demo_cssOther ''12'' demo_favorites_view))"
proof -
  have 1: "map el_song_id (songItems (songList demo_rendered)) = [[49, 50], [55], [51, 48]]"
    by code_simp
  have 2: "map el_active (songItems (songList demo_rendered)) = [False, False, False]"
    by code_simp
  have 3: "map el_active (songItems (songList (toggleFavorite demo_cssOther ''7'' demo_rendered))) =
      [False, True, False]"
    by code_simp
  have 4: "favorites (toggleFavorite demo_cssOther ''7'' demo_rendered) = [''7'']"
    by code_simp
  have 5: "songList (toggleFavorite demo_cssOther ''12'' demo_favorites_view) \<noteq>
     songList (renderSongs codeUnitCompare demo_htmlOther
                 (toggleFavorite demo_cssOther ''12'' demo_favorites_view))"
    by code_simp
  show ?thesis using 1 2 3 4 5 by simp
qed

section \<open>Properties of the start of the page\<close>

lemma loadFavorites_ok:
  assumes "favoritesReadable pf (localStorage s)"
  shows "\<exists>s'. loadFavorites pf s = Inr s' \<and> songs s' = songs s \<and>
          isRendering s' = isRendering s \<and> searchInput s' = searchInput s"
  using assms
  by (auto simp: favoritesReadable_def loadFavorites_def split: option.splits)

lemma filteredSongs_no_songs: "songs s = [] \<Longrightarrow> filteredSongs lc term s = []"
  by (simp add: filteredSongs_def filterSongs_def)

lemma loadCatalog_failed:
  "outcome = FetchRejected \<or> outcome = FetchResponse True None \<Longrightarrow>
   loadCatalog parseSongs outcome s = loadFallback parseSongs s"
  by (auto simp: loadCatalog_def)

lemma init_after_catalog:
  assumes "loadCatalog parseSongs outcome (initial_state store input) =
             Inr ((initial_state store input)\<lparr>songs := xs\<rparr>)"
    and "favoritesReadable parseFavorites store"
  shows "\<exists>s'. init localeCompare htmlOther parseSongs parseFavorites outcome store input = Inr s' \<and>
          songs s' = xs \<and>
          songList s' = (if xs = [] then [EmptyNoSongs] else songList s')"
proof -
  let ?s1 = "(initial_state store input)\<lparr>songs := xs\<rparr>"
  have "favoritesReadable parseFavorites (localStorage ?s1)"
    using assms(2) by (simp add: initial_state_def)
  then obtain s2 where s2: "loadFavorites parseFavorites ?s1 = Inr s2" "songs s2 = songs ?s1"
      "isRendering s2 = isRendering ?s1"
    using loadFavorites_ok[of parseFavorites ?s1] by auto
  then have e: "songs s2 = xs" "\<not> isRendering s2" by (simp_all add: initial_state_def)
  have "songList (renderSongs localeCompare htmlOther s2) = [EmptyNoSongs]" if "xs = []"
    using songList_renderSongs_empty[OF e(2), of localeCompare htmlOther]
      filteredSongs_no_songs[of s2] e(1) that
    by simp
  then have "init localeCompare htmlOther parseSongs parseFavorites outcome store input =
        Inr (renderSongs localeCompare htmlOther s2) \<and>
        songs (renderSongs localeCompare htmlOther s2) = xs \<and>
        songList (renderSongs localeCompare htmlOther s2) =
          (if xs = [] then [EmptyNoSongs] else songList (renderSongs localeCompare htmlOther s2))"
    using assms(1) s2 e by (simp add: init_def loadFromStorage_def songs_renderSongs)
  then show ?thesis by blast
qed

lemma not_ok_response_no_fallback:
  assumes "favoritesReadable parseFavorites store"
  shows "\<exists>s'. init localeCompare htmlOther parseSongs parseFavorites (FetchResponse False content)
                 store input = Inr s' \<and>
              songs s' = [] \<and> songList s' = [EmptyNoSongs]"
proof -
  have "loadCatalog parseSongs (FetchResponse False content) (initial_state store input) =
        Inr ((initial_state store input)\<lparr>songs := []\<rparr>)"
    by (simp add: loadCatalog_def initial_state_def)
  from init_after_catalog[OF this assms, of localeCompare htmlOther] show ?thesis by auto
qed

lemma ok_response_overwrites_favorites:
  assumes "parseFavorites (json_strings []) = Some []"
  shows "\<exists>s'. loadFromStorage parseSongs parseFavorites (FetchResponse True (Some d))
               (initial_state store input) = Inr s' \<and>
             songs s' = catalog_songs d \<and> favorites s' = [] \<and>
             localStorage s' STORAGE_KEY_FAVORITES = Some (json_strings [])"
proof -
  have "json_strings [] \<noteq> []" by (simp add: json_strings_def json_array_def)
  then show ?thesis
    using assms
    by (simp add: loadFromStorage_def loadCatalog_def loadFavorites_def saveToStorage_def
        initial_state_def new_Set_def)
qed

text \<open>
  When the fetch rejects or the body of the response cannot be read as JSON, the catalog
  becomes what \<open>JSON.parse\<close> reads from the stored copy; without a stored copy the
  catalog stays empty and the list shows the "no songs loaded" state. A catalog that is
  not empty and filters to nothing shows the "no songs match" state.
\<close>

lemma catalog_fetch_fallback:
  assumes "outcome = FetchRejected \<or> outcome = FetchResponse True None"
  shows "(localStorage s STORAGE_KEY_SONGS = Some saved \<and> saved \<noteq> [] \<and>
          parseSongs saved = Some xs \<longrightarrow>
            loadCatalog parseSongs outcome s = Inr (s\<lparr>songs := xs\<rparr>)) \<and>
         (localStorage s STORAGE_KEY_SONGS = None \<longrightarrow> loadCatalog parseSongs outcome s = Inr s) \<and>
         (favoritesReadable parseFavorites store \<and> store STORAGE_KEY_SONGS = Some saved \<and>
          saved \<noteq> [] \<and> parseSongs saved = Some xs \<longrightarrow>
            (\<exists>s'. init localeCompare htmlOther parseSongs parseFavorites outcome store input = Inr s' \<and>
                  songs s' = xs)) \<and>
         (favoritesReadable parseFavorites store \<and> store STORAGE_KEY_SONGS = None \<longrightarrow>
            (\<exists>s'. init localeCompare htmlOther parseSongs parseFavorites outcome store input = Inr s' \<and>
                  songs s' = [] \<and> songList s' = [EmptyNoSongs])) \<and>
         (songs s \<noteq> [] \<and> \<not> isRendering s \<and>
          filteredSongs localeCompare (trim (toLowerCase (searchInput s))) s = [] \<longrightarrow>
            songList (renderSongs localeCompare htmlOther s) = [EmptyNoMatch]) \<and>
         EmptyNoSongs \<noteq> EmptyNoMatch"
proof (intro conjI impI)
  note lc = loadCatalog_failed[OF assms, of parseSongs]
  {
    assume "localStorage s STORAGE_KEY_SONGS = Some saved \<and> saved \<noteq> [] \<and> parseSongs saved = Some xs"
    then show "loadCatalog parseSongs outcome s = Inr (s\<lparr>songs := xs\<rparr>)"
      by (simp add: lc loadFallback_def)
  }
  {
    assume "localStorage s STORAGE_KEY_SONGS = None"
    then show "loadCatalog parseSongs outcome s = Inr s"
      by (simp add: lc loadFallback_def)
  }
  {
    assume h: "favoritesReadable parseFavorites store \<and> store STORAGE_KEY_SONGS = Some saved \<and>
          saved \<noteq> [] \<and> parseSongs saved = Some xs"
    then have "loadCatalog parseSongs outcome (initial_state store input) =
        Inr ((initial_state store input)\<lparr>songs := xs\<rparr>)"
      by (simp add: lc loadFallback_def initial_state_def)
    from init_after_catalog[OF this, of parseFavorites localeCompare htmlOther] h
    show "\<exists>s'. init localeCompare htmlOther parseSongs parseFavorites outcome store input = Inr s' \<and>
                  songs s' = xs" by blast
  }
  {
    assume h: "favoritesReadable parseFavorites store \<and> store STORAGE_KEY_SONGS = None"
    then have "loadCatalog parseSongs outcome (initial_state store input) =
        Inr ((initial_state store input)\<lparr>songs := []\<rparr>)"
      by (simp add: lc loadFallback_def initial_state_def)
    from init_after_catalog[OF this, of parseFavorites localeCompare htmlOther] h
    show "\<exists>s'. init localeCompare htmlOther parseSongs parseFavorites outcome store input = Inr s' \<and>
                  songs s' = [] \<and> songList s' = [EmptyNoSongs]" by auto
  }
  {
    assume h: "songs s \<noteq> [] \<and> \<not> isRendering s \<and>
          filteredSongs localeCompare (trim (toLowerCase (searchInput s))) s = []"
    then have "\<not> isRendering s" by simp
    from songList_renderSongs_empty[OF this, of localeCompare htmlOther] h
    show "songList (renderSongs localeCompare htmlOther s) = [EmptyNoMatch]" by simp
  }
  show "EmptyNoSongs \<noteq> EmptyNoMatch" by simp
qed

section \<open>Properties of the offline cache manager\<close>

lemma requestMatches_self:
  "req_method req = ''GET'' \<Longrightarrow> ''*'' \<notin> set (varyFields resp) \<Longrightarrow> requestMatches req (req, resp)"
  by (auto simp: requestMatches_def list_all_iff)

lemma cache_match_after_put:
  assumes "putAccepted req resp"
  shows "\<exists>c'. cache_put c req resp = Inr c' \<and> cache_match c' req = Some resp"
proof -
  have m: "requestMatches req (req, resp)"
    using assms by (intro requestMatches_self) (simp_all add: putAccepted_def)
  have "filter (requestMatches req) (filter (\<lambda>entry. \<not> requestMatches req entry) c @ [(req, resp)]) =
        [(req, resp)]"
    using m by (simp add: filter_empty_conv)
  then show ?thesis using assms by (simp add: cache_put_def cache_match_def)
qed

lemma cache_put_refused: "\<not> putAccepted req resp \<Longrightarrow> cache_put c req resp = Inl TypeError"
  by (simp add: cache_put_def)

lemma caches_open_has: "name \<in> set (caches_keys (caches_open name cs))"
  by (simp add: caches_open_def caches_keys_def)

lemma map_of_replace_bucket:
  "name \<in> set (map fst cs) \<Longrightarrow>
   map_of (map (\<lambda>entry. if fst entry = name then (name, c') else entry) cs) name = Some c'"
  by (induction cs) auto

lemma keys_replace_bucket:
  "caches_keys (map (\<lambda>entry. if fst entry = name then (name, c') else entry) cs) = caches_keys cs"
  by (induction cs) (auto simp: caches_keys_def)

lemma keys_openAndPut:
  "caches_keys (caches (openAndPut name req resp st)) = caches_keys (caches_open name (caches st))"
  by (simp add: openAndPut_def Let_def keys_replace_bucket split: sum.splits)

lemma openAndPut_accepted:
  assumes "putAccepted req resp"
  shows "\<exists>bucket. map_of (caches (openAndPut name req resp st)) name = Some bucket \<and>
           cache_match bucket req = Some resp"
proof -
  let ?opened = "caches_open name (caches st)"
  let ?c = "case map_of ?opened name of None \<Rightarrow> [] | Some c \<Rightarrow> c"
  obtain c' where c': "cache_put ?c req resp = Inr c'" "cache_match c' req = Some resp"
    using cache_match_after_put[OF assms, of ?c] by blast
  have "name \<in> set (map fst ?opened)"
    using caches_open_has[of name "caches st"] by (simp add: caches_keys_def)
  then have "map_of (map (\<lambda>entry. if fst entry = name then (name, c') else entry) ?opened) name = Some c'"
    by (rule map_of_replace_bucket)
  then show ?thesis using c' by (simp add: openAndPut_def Let_def)
qed

lemma openAndPut_refused:
  assumes "\<not> putAccepted req resp"
  shows "openAndPut name req resp st =
         st\<lparr>caches := caches_open name (caches st), unhandled := unhandled st @ [TypeError]\<rparr>"
  using assms by (simp add: openAndPut_def Let_def cache_put_refused)

lemma settle_one:
  "pending st = [(name, req, resp)] \<Longrightarrow> settle st = openAndPut name req resp (st\<lparr>pending := []\<rparr>)"
  by (simp add: settle_def)

lemma foldl_delete_others:
  "foldl (\<lambda>cs cache. if cache \<noteq> C then caches_delete cache cs else cs) cs names =
   filter (\<lambda>entry. fst entry = C \<or> fst entry \<notin> set names) cs"
proof (induction names arbitrary: cs)
  case Nil
  then show ?case by simp
next
  case (Cons n names)
  have "filter (\<lambda>entry. fst entry = C \<or> fst entry \<notin> set names)
          (if n \<noteq> C then caches_delete n cs else cs) =
        filter (\<lambda>entry. fst entry = C \<or> fst entry \<notin> set (n # names)) cs"
    by (auto simp: caches_delete_def intro: filter_cong)
  then show ?case by (simp add: Cons.IH)
qed

lemma caches_activate:
  "caches (activate st) = filter (\<lambda>entry. fst entry = CACHE_NAME) (caches st)"
  unfolding activate_def
  by (simp add: foldl_delete_others caches_keys_def) (rule filter_cong, auto)

lemma keys_activate:
  "set (caches_keys (caches (activate st))) = set (caches_keys (caches st)) \<inter> {CACHE_NAME}"
  by (force simp: caches_activate caches_keys_def)

lemma keys_foldl_openAndPut:
  "name \<in> set (caches_keys (caches st)) \<Longrightarrow>
   caches_keys (caches (foldl (\<lambda>acc p. openAndPut name (f p) (g p) acc) st ps)) =
   caches_keys (caches st)"
proof (induction ps arbitrary: st)
  case Nil
  then show ?case by simp
next
  case (Cons p ps)
  have k: "caches_keys (caches (openAndPut name (f p) (g p) st)) = caches_keys (caches st)"
    using Cons.prems by (simp add: keys_openAndPut caches_open_def)
  then have "name \<in> set (caches_keys (caches (openAndPut name (f p) (g p) st)))"
    using Cons.prems by simp
  from Cons.IH[OF this] k show ?case by simp
qed

lemma install_has_current: "CACHE_NAME \<in> set (caches_keys (caches (install origin net st)))"
proof -
  let ?st1 = "st\<lparr>caches := caches_open CACHE_NAME (caches st),
                   network_log := network_log st @ map (assetRequest origin) ASSETS\<rparr>"
  have h: "CACHE_NAME \<in> set (caches_keys (caches ?st1))" by (simp add: caches_open_has)
  show ?thesis
  proof (cases "addAll net (map (assetRequest origin) ASSETS)")
    case None
    then show ?thesis using h by (simp add: install_def Let_def)
  next
    case (Some fetched)
    have "caches_keys (caches (foldl (\<lambda>acc p. openAndPut CACHE_NAME (fst p) (snd p) acc) ?st1 fetched)) =
          caches_keys (caches ?st1)"
      by (rule keys_foldl_openAndPut[OF h])
    then show ?thesis using Some h by (simp add: install_def Let_def)
  qed
qed

section \<open>The claims\<close>

text \<open>
  Claim C1. The query of the render pipeline filters the catalog and sorts what is left.
  A song is in its result exactly when it is in the catalog and both conditions hold:
  the normalized search term is empty or occurs as a substring in the normalized title,
  in the normalized artist or in the number without white space; and the filter shows
  all songs or the number of the song is a favourite. The search term is the value of
  the search field: the pipeline lower-cases and trims it before it normalizes it, which
  leaves the normal form as it is. Normalization lower-cases and removes all white
  space, so that "The Chainsmokers" and "TheChainsmokers" have one normal form.
\<close>

theorem query_membership_iff:
  "(sg \<in> set (filteredSongs localeCompare (trim (toLowerCase (searchInput s))) s) \<longleftrightarrow>
      sg \<in> set (songs s) \<and>
      (normalizeForSearch (searchInput s) = [] \<or>
       (\<exists>p r. normalizeForSearch (title sg) = p @ normalizeForSearch (searchInput s) @ r) \<or>
       (\<exists>p r. normalizeForSearch (artist sg) = p @ normalizeForSearch (searchInput s) @ r) \<or>
       (\<exists>p r. removeWhiteSpace (number sg) = p @ normalizeForSearch (searchInput s) @ r)) \<and>
      (currentFilter s = FilterAll \<or> number sg \<in> set (favorites s))) \<and>
   normalizeForSearch t = removeWhiteSpace (toLowerCase t) \<and>
   normalizeForSearch ''The Chainsmokers'' = normalizeForSearch ''TheChainsmokers''"
proof (intro conjI)
  show "sg \<in> set (filteredSongs localeCompare (trim (toLowerCase (searchInput s))) s) \<longleftrightarrow>
      sg \<in> set (songs s) \<and>
      (normalizeForSearch (searchInput s) = [] \<or>
       (\<exists>p r. normalizeForSearch (title sg) = p @ normalizeForSearch (searchInput s) @ r) \<or>
       (\<exists>p r. normalizeForSearch (artist sg) = p @ normalizeForSearch (searchInput s) @ r) \<or>
       (\<exists>p r. removeWhiteSpace (number sg) = p @ normalizeForSearch (searchInput s) @ r)) \<and>
      (currentFilter s = FilterAll \<or> number sg \<in> set (favorites s))"
    by (simp add: filteredSongs_def set_array_sort filterSongs_def matchesSearch_def
        matchesFavorites_def set_has_def normalize_searchTerm str_includes_iff Let_def)
  show "normalizeForSearch t = removeWhiteSpace (toLowerCase t)"
    by (simp add: normalizeForSearch_def removeWhiteSpace_def toLowerCase_def)
  show "normalizeForSearch ''The Chainsmokers'' = normalizeForSearch ''TheChainsmokers''"
    by code_simp
qed

text \<open>
  The scenario of the specification: song 12 is found by its title and by its artist,
  with white space and capitals in the search term; it is not found by the term 99, and
  not in the favourites view while no song is a favourite.
\<close>

theorem query_membership_iff_witness:
  "song12 \<in> set (filteredSongs codeUnitCompare (trim (toLowerCase ''Amazing''))
                    (demo_state\<lparr>searchInput := ''Amazing''\<rparr>)) \<and>
   song12 \<in> set (filteredSongs codeUnitCompare (trim (toLowerCase '' new ton''))
                    (demo_state\<lparr>searchInput := '' new ton''\<rparr>)) \<and>
   song12 \<notin> set (filteredSongs codeUnitCompare (trim (toLowerCase ''99''))
                    (demo_state\<lparr>searchInput := ''99''\<rparr>)) \<and>
   song12 \<notin> set (filteredSongs codeUnitCompare (trim (toLowerCase ''Amazing''))
                    (demo_state\<lparr>searchInput := ''Amazing'', currentFilter := FilterFavorites\<rparr>))"
proof -
  have m: "song12 \<in> set demo_songs" by (simp add: song12_def demo_songs_def)
  have t: "str_includes (normalizeForSearch (title song12)) (normalizeForSearch ''Amazing'')"
    by code_simp
  have a: "str_includes (normalizeForSearch (artist song12)) (normalizeForSearch '' new ton'')"
    by code_simp
  have n: "normalizeForSearch ''99'' \<noteq> []"
     "\<not> str_includes (normalizeForSearch (title song12)) (normalizeForSearch ''99'')"
     "\<not> str_includes (normalizeForSearch (artist song12)) (normalizeForSearch ''99'')"
     "\<not> str_includes (removeWhiteSpace (number song12)) (normalizeForSearch ''99'')"
    by code_simp+
  show ?thesis
    using query_membership_iff[of song12 codeUnitCompare "demo_state\<lparr>searchInput := ''Amazing''\<rparr>"]
      query_membership_iff[of song12 codeUnitCompare "demo_state\<lparr>searchInput := '' new ton''\<rparr>"]
      query_membership_iff[of song12 codeUnitCompare "demo_state\<lparr>searchInput := ''99''\<rparr>"]
      query_membership_iff[of song12 codeUnitCompare
        "demo_state\<lparr>searchInput := ''Amazing'', currentFilter := FilterFavorites\<rparr>"]
      m t a n
    by (simp add: str_includes_iff[symmetric] demo_state_def initial_state_def)
qed

text \<open>
  Claim C2. After a render and \<open>N\<close> clicks on "load more", the page is to show
  \<open>min (ITEMS_PER_PAGE * (N + 1)) total\<close> song items for every catalog, and
  \<open>load_more_pagination\<close> shows that it does where every song keeps its favourite
  button in the markup. The markup is where the program fails. \<open>createSongElement\<close>
  writes the number of a song through \<open>escapeHtml\<close> into the text of the item and,
  a few lines below, as it is into the attribute \<open>data-song-id\<close>. In the catalog of
  the one song with the number \<open>7" x='\<close> the double quote ends the attribute and the
  single quote opens a value that nothing closes, so the parser drops the button,
  \<open>favoriteBtn\<close> is \<open>null\<close> and \<open>addEventListener\<close> throws. One song passes the
  filter and no song item is shown; the render flag stays set, so a further render
  returns at once.
\<close>

theorem load_more_broken_markup:
  "filteredSongs localeCompare (trim (toLowerCase (searchInput broken_state))) broken_state =
     [broken_song] \<and>
   min (ITEMS_PER_PAGE * (0 + 1)) (length [broken_song]) = 1 \<and>
   htmlButton htmlOther (number broken_song) = NoButton \<and>
   createSongElement htmlOther (favorites broken_state) broken_song = Inl TypeError \<and>
   songItems (songList (renderSongs localeCompare htmlOther broken_state)) = [] \<and>
   uncaught (renderSongs localeCompare htmlOther broken_state) = [TypeError] \<and>
   isRendering (renderSongs localeCompare htmlOther broken_state) \<and>
   renderSongs localeCompare htmlOther (renderSongs localeCompare htmlOther broken_state) =
     renderSongs localeCompare htmlOther broken_state"
proof -
  let ?st = "trim (toLowerCase (searchInput broken_state))"
  have st: "?st = []" by (simp add: broken_state_def initial_state_def trim_def toLowerCase_def)
  have f: "filteredSongs localeCompare ?st broken_state = [broken_song]"
    unfolding st
    by (simp add: filteredSongs_def filterSongs_def matchesSearch_def matchesFavorites_def
        normalizeForSearch_def removeWhiteSpace_def toLowerCase_def broken_state_def
        initial_state_def)
  have b: "htmlButton htmlOther (number broken_song) = NoButton"
    by (simp add: htmlButton_def broken_song_def leavesTagOpen_def isHtmlSpace_def isAlnum_def)
  then have e: "createSongElement htmlOther (favorites broken_state) broken_song = Inl TypeError"
    by (simp add: createSongElement_def)
  have n: "\<not> isRendering broken_state" "length (songs broken_state) = 1"
    "favorites broken_state = []" "uncaught broken_state = []"
    by (simp_all add: broken_state_def initial_state_def)
  let ?s1 = "broken_state\<lparr>isRendering := True\<rparr>"
  have f1: "filteredSongs localeCompare ?st ?s1 = [broken_song]"
    using f filteredSongs_cong[of ?s1 broken_state localeCompare ?st] by simp
  have "renderSongs localeCompare htmlOther broken_state = renderFrame localeCompare htmlOther ?st ?s1"
    using renderSongs_frame[OF n(1), of localeCompare htmlOther] n(2) by simp
  also have "\<dots> = broken_state\<lparr>isRendering := True, songList := [], uncaught := [TypeError]\<rparr>"
    unfolding renderFrame_def Let_def f1
    using e n by (simp add: renderSongsImmediate_def ITEMS_PER_PAGE_def)
  finally have r: "renderSongs localeCompare htmlOther broken_state =
      broken_state\<lparr>isRendering := True, songList := [], uncaught := [TypeError]\<rparr>" .
  have p: "min (ITEMS_PER_PAGE * (0 + 1)) (length [broken_song]) = 1"
    by (simp add: ITEMS_PER_PAGE_def)
  have again: "renderSongs localeCompare htmlOther (renderSongs localeCompare htmlOther broken_state) =
     renderSongs localeCompare htmlOther broken_state"
    unfolding r by (simp add: renderSongs_def)
  show ?thesis
    using f p b e again by (simp add: r)
qed

text \<open>
  Claim C3, as amended. For a GET request that is not a browser extension's the handler
  always answers with a response. When a cache holds a match (the URLs agree up to the
  fragment and the \<open>Vary\<close> fields agree), the cached response is the answer and
  nothing else happens, whatever the network would say. When no cache holds a match and
  the network answers with status 200 and a type other than error, that response is the
  answer; the handler has then started the store of a copy in the cache of the current
  version and does not wait for it, so the caches are as before when the response is
  returned. When the store has run, the cache of the current version holds the copy for
  the request, unless \<open>put\<close> refuses the pair (a \<open>Vary\<close> header that names
  \<open>*\<close>, a URL that is not http or https): then nothing is stored and the rejection
  stays unhandled. When no cache holds a match and the fetch rejects, the answer is the
  response with status 503, content type text/plain and the body "Offline - Content not
  available".
\<close>

theorem fetch_handler_serving:
  assumes "req_method req = ''GET''" and "\<not> startsWith (url req) ''chrome-extension://''"
  shows "(\<exists>r. fst (onFetch net req st) = RespondWith r) \<and>
         (caches_match (caches st) req = Some cached \<longrightarrow>
            onFetch net req st = (RespondWith cached, st)) \<and>
         (caches_match (caches st) req = None \<and> net req = Some resp \<and>
          status resp = 200 \<and> rtype resp \<noteq> Error \<longrightarrow>
            fst (onFetch net req st) = RespondWith resp \<and>
            caches (snd (onFetch net req st)) = caches st \<and>
            pending (snd (onFetch net req st)) = pending st @ [(CACHE_NAME, req, resp)]) \<and>
         (caches_match (caches st) req = None \<and> net req = Some resp \<and>
          status resp = 200 \<and> rtype resp \<noteq> Error \<and> pending st = [] \<and> putAccepted req resp \<longrightarrow>
            (\<exists>bucket. map_of (caches (settle (snd (onFetch net req st)))) CACHE_NAME = Some bucket \<and>
                      cache_match bucket req = Some resp)) \<and>
         (caches_match (caches st) req = None \<and> net req = Some resp \<and>
          status resp = 200 \<and> rtype resp \<noteq> Error \<and> pending st = [] \<and> \<not> putAccepted req resp \<longrightarrow>
            caches (settle (snd (onFetch net req st))) = caches_open CACHE_NAME (caches st) \<and>
            unhandled (settle (snd (onFetch net req st))) = unhandled st @ [TypeError]) \<and>
         (caches_match (caches st) req = None \<and> net req = None \<longrightarrow>
            fst (onFetch net req st) = RespondWith offlineResponse \<and>
            caches (snd (onFetch net req st)) = caches st \<and>
            pending (snd (onFetch net req st)) = pending st) \<and>
         status offlineResponse = 503 \<and>
         body offlineResponse = ''Offline - Content not available'' \<and>
         headers offlineResponse = [(''Content-Type'', ''text/plain'')]"
proof (intro conjI impI)
  show "\<exists>r. fst (onFetch net req st) = RespondWith r"
    using assms by (auto simp: onFetch_def Let_def split: option.splits)
next
  assume "caches_match (caches st) req = Some cached"
  then show "onFetch net req st = (RespondWith cached, st)"
    using assms by (simp add: onFetch_def)
next
  assume h: "caches_match (caches st) req = None \<and> net req = Some resp \<and>
          status resp = 200 \<and> rtype resp \<noteq> Error"
  then have o: "onFetch net req st =
     (RespondWith resp,
      st\<lparr>network_log := network_log st @ [req],
         pending := pending st @ [(CACHE_NAME, req, resp)]\<rparr>)"
    using assms by (simp add: onFetch_def Let_def)
  show "fst (onFetch net req st) = RespondWith resp" by (simp add: o)
  show "caches (snd (onFetch net req st)) = caches st" by (simp add: o)
  show "pending (snd (onFetch net req st)) = pending st @ [(CACHE_NAME, req, resp)]" by (simp add: o)
next
  assume h: "caches_match (caches st) req = None \<and> net req = Some resp \<and>
          status resp = 200 \<and> rtype resp \<noteq> Error \<and> pending st = [] \<and> putAccepted req resp"
  then have o: "onFetch net req st =
     (RespondWith resp,
      st\<lparr>network_log := network_log st @ [req],
         pending := pending st @ [(CACHE_NAME, req, resp)]\<rparr>)"
    using assms by (simp add: onFetch_def Let_def)
  have "settle (snd (onFetch net req st)) =
      openAndPut CACHE_NAME req resp (st\<lparr>network_log := network_log st @ [req], pending := []\<rparr>)"
    using h by (simp add: o settle_def)
  then show "\<exists>bucket. map_of (caches (settle (snd (onFetch net req st)))) CACHE_NAME = Some bucket \<and>
                      cache_match bucket req = Some resp"
    using openAndPut_accepted[of req resp CACHE_NAME] h by simp
next
  assume h: "caches_match (caches st) req = None \<and> net req = Some resp \<and>
          status resp = 200 \<and> rtype resp \<noteq> Error \<and> pending st = [] \<and> \<not> putAccepted req resp"
  then have o: "onFetch net req st =
     (RespondWith resp,
      st\<lparr>network_log := network_log st @ [req],
         pending := pending st @ [(CACHE_NAME, req, resp)]\<rparr>)"
    using assms by (simp add: onFetch_def Let_def)
  have s: "settle (snd (onFetch net req st)) =
      openAndPut CACHE_NAME req resp (st\<lparr>network_log := network_log st @ [req], pending := []\<rparr>)"
    using h by (simp add: o settle_def)
  show "caches (settle (snd (onFetch net req st))) = caches_open CACHE_NAME (caches st)"
    using h by (simp add: s openAndPut_refused)
  show "unhandled (settle (snd (onFetch net req st))) = unhandled st @ [TypeError]"
    using h by (simp add: s openAndPut_refused)
next
  assume h: "caches_match (caches st) req = None \<and> net req = None"
  then have o: "onFetch net req st =
     (RespondWith offlineResponse, st\<lparr>network_log := network_log st @ [req]\<rparr>)"
    using assms by (simp add: onFetch_def Let_def)
  show "fst (onFetch net req st) = RespondWith offlineResponse" by (simp add: o)
  show "caches (snd (onFetch net req st)) = caches st" by (simp add: o)
  show "pending (snd (onFetch net req st)) = pending st" by (simp add: o)
qed (simp_all add: offlineResponse_def)

text \<open>
  A pinned asset that is cached is served while the network is down, also when the
  request carries a fragment. Without the cached copy the answer of the network is
  served, and the copy is in the cache once the store has run; when the network is down
  the offline response is served.
\<close>

theorem fetch_handler_serving_witness:
  "req_method demo_request = ''GET'' \<and>
   onFetch (\<lambda>r. None) demo_request demo_cached = (RespondWith demo_response, demo_cached) \<and>
   fst (onFetch (\<lambda>r. None) (demo_request\<lparr>url := url demo_request @ ''#top''\<rparr>) demo_cached) =
     RespondWith demo_response \<and>
   fst (onFetch (\<lambda>r. Some demo_response) demo_request demo_uncached) = RespondWith demo_response \<and>
   putAccepted demo_request demo_response \<and>
   caches_match (caches (settle (snd (onFetch (\<lambda>r. Some demo_response) demo_request demo_uncached))))
     demo_request = Some demo_response \<and>
   fst (onFetch (\<lambda>r. None) demo_request demo_uncached) = RespondWith offlineResponse"
proof -
  let ?top = "demo_request\<lparr>url := url demo_request @ ''#top''\<rparr>"
  have g: "req_method demo_request = ''GET''" "req_method ?top = ''GET''"
    by (simp_all add: demo_request_def)
  have x: "\<not> startsWith (url demo_request) ''chrome-extension://''"
    "\<not> startsWith (url ?top) ''chrome-extension://''"
    by (simp_all add: demo_request_def startsWith_def)
  have hit: "caches_match (caches demo_cached) demo_request = Some demo_response"
    "caches_match (caches demo_cached) ?top = Some demo_response"
    by code_simp+
  have miss: "caches_match (caches demo_uncached) demo_request = None"
    by code_simp
  have ok: "status demo_response = 200" "rtype demo_response \<noteq> Error"
    by (simp_all add: demo_response_def)
  have acc: "putAccepted demo_request demo_response"
    by code_simp
  have after: "caches_match
      (caches (settle (snd (onFetch (\<lambda>r. Some demo_response) demo_request demo_uncached))))
      demo_request = Some demo_response"
    by code_simp
  show ?thesis
    using fetch_handler_serving[OF g(1) x(1), of "\<lambda>r. None" demo_cached demo_response demo_response]
      fetch_handler_serving[OF g(2) x(2), of "\<lambda>r. None" demo_cached demo_response demo_response]
      fetch_handler_serving[OF g(1) x(1), of "\<lambda>r. Some demo_response" demo_uncached demo_response
        demo_response]
      fetch_handler_serving[OF g(1) x(1), of "\<lambda>r. None" demo_uncached demo_response demo_response]
      g hit miss ok acc after
    by simp
qed

text \<open>
  Claim C3 as it was stated has the copy stored before the response is returned. When
  the handler returns the response of the network, no cache holds the copy yet; and the
  copy of a response whose \<open>Vary\<close> header names \<open>*\<close> is not stored at all.
\<close>

theorem fetch_handler_store_counterexample:
  "fst (onFetch (\<lambda>r. Some demo_response) demo_request demo_uncached) = RespondWith demo_response \<and>
   caches_match (caches (snd (onFetch (\<lambda>r. Some demo_response) demo_request demo_uncached)))
     demo_request = None \<and>
   caches_keys (caches (snd (onFetch (\<lambda>r. Some demo_response) demo_request demo_uncached))) =
     [''songbook-v1.4''] \<and>
   fst (onFetch (\<lambda>r. Some demo_vary_response) demo_request demo_uncached) =
     RespondWith demo_vary_response \<and>
   caches_match
     (caches (settle (snd (onFetch (\<lambda>r. Some demo_vary_response) demo_request demo_uncached))))
     demo_request = None"
  by code_simp

text \<open>
  Claim C4. The activate step follows the install step, which opens the cache of the
  current version whether or not the assets could be added. From every cache storage,
  for every origin and network, the cache names after install and activate are exactly
  the current version tag. The activate step keeps the caches of that name and deletes
  every other cache.
\<close>

theorem activate_keeps_only_current:
  "set (caches_keys (caches (activate (install origin net st)))) = {CACHE_NAME} \<and>
   set (caches_keys (caches (activate st))) = set (caches_keys (caches st)) \<inter> {CACHE_NAME}"
  using keys_activate[of st] keys_activate[of "install origin net st"]
    install_has_current[of origin net st]
  by auto

text \<open>
  From an old cache alone, install and activate leave the current cache; the activate
  step keeps the current cache of a storage that has it, and creates none.
\<close>

theorem activate_keeps_only_current_witness:
  "set (caches_keys (caches (activate (install ''https://songs.example'' (\<lambda>r. None) demo_uncached)))) =
     {CACHE_NAME} \<and>
   set (caches_keys (caches (activate demo_cached))) = {CACHE_NAME} \<and>
   set (caches_keys (caches (activate demo_uncached))) = {}"
proof -
  have 1: "set (caches_keys (caches demo_cached)) = {''songbook-v1.4'', CACHE_NAME}"
    by (simp add: demo_cached_def caches_keys_def)
  have 2: "set (caches_keys (caches demo_uncached)) = {''songbook-v1.4''}"
    by (simp add: demo_uncached_def caches_keys_def)
  have 3: "''songbook-v1.4'' \<noteq> CACHE_NAME" by (simp add: CACHE_NAME_def)
  show ?thesis
    using activate_keeps_only_current[of "''https://songs.example''" "\<lambda>r. None" demo_uncached]
      activate_keeps_only_current[of "''https://songs.example''" "\<lambda>r. None" demo_cached] 1 2 3
    by auto
qed

text \<open>
  Claim C5, as amended. Two toggles of the same number restore the members of the
  favourites. One toggle adds the number when it is absent and removes it when it is
  present, and each toggle stores the serialized favourites. The favourites keep the
  order of insertion, so a number that was a member is at the end after two toggles,
  and the stored string is the serialization of that order: it is the serialization of
  the favourites as they were when the number was not a member.
\<close>

theorem toggleFavorite_twice:
  "set (favorites (toggleFavorite cssOther x (toggleFavorite cssOther x s))) = set (favorites s) \<and>
   favorites (toggleFavorite cssOther x (toggleFavorite cssOther x s)) =
     (if x \<in> set (favorites s) then removeAll x (favorites s) @ [x] else favorites s) \<and>
   localStorage (toggleFavorite cssOther x (toggleFavorite cssOther x s)) STORAGE_KEY_FAVORITES =
     Some (json_strings (if x \<in> set (favorites s) then removeAll x (favorites s) @ [x]
                         else favorites s)) \<and>
   favorites (toggleFavorite cssOther x s) =
     (if x \<in> set (favorites s) then removeAll x (favorites s) else favorites s @ [x]) \<and>
   localStorage (toggleFavorite cssOther x s) STORAGE_KEY_FAVORITES =
     Some (json_strings (favorites (toggleFavorite cssOther x s)))"
proof (intro conjI)
  show "set (favorites (toggleFavorite cssOther x (toggleFavorite cssOther x s))) = set (favorites s)"
    by (auto simp: favorites_toggle_twice)
  show "favorites (toggleFavorite cssOther x (toggleFavorite cssOther x s)) =
     (if x \<in> set (favorites s) then removeAll x (favorites s) @ [x] else favorites s)"
    by (rule favorites_toggle_twice)
  show "localStorage (toggleFavorite cssOther x (toggleFavorite cssOther x s)) STORAGE_KEY_FAVORITES =
     Some (json_strings (if x \<in> set (favorites s) then removeAll x (favorites s) @ [x]
                         else favorites s))"
    by (simp only: localStorage_toggleFavorite favorites_toggle_twice fun_upd_same)
  show "favorites (toggleFavorite cssOther x s) =
     (if x \<in> set (favorites s) then removeAll x (favorites s) else favorites s @ [x])"
    by (rule favorites_toggleFavorite)
  show "localStorage (toggleFavorite cssOther x s) STORAGE_KEY_FAVORITES =
     Some (json_strings (favorites (toggleFavorite cssOther x s)))"
    by (simp only: localStorage_toggleFavorite fun_upd_same)
qed

text \<open>
  With the favourites a, b: two toggles of b (the last one) or of c (not a member)
  restore the order, two toggles of a move it to the end.
\<close>

theorem toggleFavorite_twice_witness:
  "favorites (toggleFavorite demo_cssOther ''b'' (toggleFavorite demo_cssOther ''b'' two_favorites)) = [''a'', ''b''] \<and>
   favorites (toggleFavorite demo_cssOther ''c'' (toggleFavorite demo_cssOther ''c'' two_favorites)) = [''a'', ''b''] \<and>
   favorites (toggleFavorite demo_cssOther ''a'' (toggleFavorite demo_cssOther ''a'' two_favorites)) = [''b'', ''a'']"
  using toggleFavorite_twice[of demo_cssOther "''b''" two_favorites] toggleFavorite_twice[of demo_cssOther "''c''" two_favorites]
    toggleFavorite_twice[of demo_cssOther "''a''" two_favorites]
  by (simp add: favorites_two_favorites)

text \<open>
  Claim C5 as it was stated asks for the stored string to be as before. After a and b
  were marked, two toggles of a store the favourites in the order b, a.
\<close>

theorem toggleFavorite_twice_counterexample:
  "localStorage two_favorites STORAGE_KEY_FAVORITES = Some (json_strings [''a'', ''b'']) \<and>
   localStorage (toggleFavorite demo_cssOther ''a'' (toggleFavorite demo_cssOther ''a'' two_favorites)) STORAGE_KEY_FAVORITES =
     Some (json_strings [''b'', ''a'']) \<and>
   localStorage (toggleFavorite demo_cssOther ''a'' (toggleFavorite demo_cssOther ''a'' two_favorites)) STORAGE_KEY_FAVORITES \<noteq>
     localStorage two_favorites STORAGE_KEY_FAVORITES"
proof -
  have 1: "localStorage two_favorites STORAGE_KEY_FAVORITES = Some (json_strings [''a'', ''b''])"
    using favorites_two_favorites
    by (simp add: two_favorites_def localStorage_toggleFavorite)
  have 2: "localStorage (toggleFavorite demo_cssOther ''a'' (toggleFavorite demo_cssOther ''a'' two_favorites)) STORAGE_KEY_FAVORITES =
     Some (json_strings [''b'', ''a''])"
    by (simp add: localStorage_toggleFavorite favorites_toggle_twice favorites_two_favorites)
  have 3: "json_strings [''b'', ''a''] \<noteq> json_strings [''a'', ''b'']"
    by (simp add: json_strings_def json_array_def json_string_def json_char_def)
  from 1 2 3 show ?thesis by simp
qed

text \<open>
  Claim C6. For a consistent \<open>localeCompare\<close>, the sorting step of the query yields the
  filtered songs in ascending order of the title or of the artist, as the sort key says:
  the result is a rearrangement of the filtered songs in which no song stands before one
  that compares as smaller. The sort is stable: the songs that compare as equal to a
  given song stand in the order in which the catalog has them. It is idempotent: sorting
  the result again by the same key yields the result.
\<close>

theorem sort_step_stable:
  assumes "consistentComparator localeCompare"
  shows "(currentSort s = SortTitle \<longrightarrow>
            sorted_wrt (\<lambda>a b. localeCompare (title a) (title b) \<le> 0)
              (filteredSongs localeCompare term s)) \<and>
         (currentSort s = SortArtist \<longrightarrow>
            sorted_wrt (\<lambda>a b. localeCompare (artist a) (artist b) \<le> 0)
              (filteredSongs localeCompare term s)) \<and>
         mset (filteredSongs localeCompare term s) = mset (filterSongs term s) \<and>
         filter (\<lambda>y. compareSongs localeCompare (currentSort s) z y = 0)
                (filteredSongs localeCompare term s) =
         filter (\<lambda>y. compareSongs localeCompare (currentSort s) z y = 0 \<and>
                     matchesSearch term y \<and> matchesFavorites s y) (songs s) \<and>
         array_sort (compareSongs localeCompare (currentSort s))
            (filteredSongs localeCompare term s) = filteredSongs localeCompare term s"
proof -
  let ?c = "compareSongs localeCompare (currentSort s)"
  have cons: "consistentComparator ?c" by (rule consistent_compareSongs[OF assms])
  have sorted: "sorted_wrt (\<lambda>a b. ?c a b \<le> 0) (filteredSongs localeCompare term s)"
    unfolding filteredSongs_def by (rule sorted_array_sort[OF cons])
  have 1: "currentSort s = SortTitle \<longrightarrow>
            sorted_wrt (\<lambda>a b. localeCompare (title a) (title b) \<le> 0)
              (filteredSongs localeCompare term s)"
    using sorted by (auto simp: compareSongs_def)
  have 2: "currentSort s = SortArtist \<longrightarrow>
            sorted_wrt (\<lambda>a b. localeCompare (artist a) (artist b) \<le> 0)
              (filteredSongs localeCompare term s)"
    using sorted by (auto simp: compareSongs_def)
  have 3: "mset (filteredSongs localeCompare term s) = mset (filterSongs term s)"
    by (simp add: filteredSongs_def mset_array_sort)
  have 4: "filter (\<lambda>y. ?c z y = 0) (filteredSongs localeCompare term s) =
         filter (\<lambda>y. ?c z y = 0 \<and> matchesSearch term y \<and> matchesFavorites s y) (songs s)"
    unfolding filteredSongs_def filter_tie_array_sort[OF cons]
    by (simp add: filterSongs_def conj_commute)
  have 5: "array_sort ?c (filteredSongs localeCompare term s) = filteredSongs localeCompare term s"
    using sorted by (rule array_sort_sorted_id)
  from 1 2 3 4 5 show ?thesis by blast
qed

text \<open>The example catalog sorted by title under the comparison by code units.\<close>

theorem sort_step_stable_witness:
  "consistentComparator codeUnitCompare \<and>
   currentSort demo_state = SortTitle \<and>
   sorted_wrt (\<lambda>a b. codeUnitCompare (title a) (title b) \<le> 0)
     (filteredSongs codeUnitCompare [] demo_state) \<and>
   array_sort (compareSongs codeUnitCompare SortTitle) (filteredSongs codeUnitCompare [] demo_state) =
     filteredSongs codeUnitCompare [] demo_state"
proof -
  have s: "currentSort demo_state = SortTitle"
    by (simp add: demo_state_def initial_state_def)
  show ?thesis
    using sort_step_stable[OF consistent_codeUnitCompare, of demo_state "[]"] s consistent_codeUnitCompare
    by simp
qed

text \<open>
  Claim C7. When the fetch of the catalog fails, the catalog is to fall back to the
  stored copy, and \<open>catalog_fetch_fallback\<close> shows that it does when the fetch rejects
  or the body cannot be read. \<open>loadFromStorage\<close> says "Fallback to localStorage if
  fetch fails" above its \<open>catch\<close>, but \<open>fetch\<close> resolves for a response that is
  not ok (a 404, or the 503 that the service worker of this page answers when it is
  offline), and for \<open>response.ok\<close> being false the function has no branch: nothing
  throws and the stored copy is not read. With the example catalog in the storage, such
  a response starts the page with an empty catalog and the "no songs loaded" state,
  where a fetch that rejects starts it with the stored catalog.
\<close>

theorem not_ok_response_ignores_stored_copy:
  "localStorage (saveToStorage demo_state) STORAGE_KEY_SONGS = Some (json_songs demo_songs) \<and>
   demo_parseSongs (json_songs demo_songs) = Some demo_songs \<and>
   demo_songs \<noteq> [] \<and>
   loadCatalog demo_parseSongs (FetchResponse False content)
       (initial_state (localStorage (saveToStorage demo_state)) []) =
     Inr (initial_state (localStorage (saveToStorage demo_state)) []) \<and>
   loadCatalog demo_parseSongs FetchRejected
       (initial_state (localStorage (saveToStorage demo_state)) []) =
     Inr ((initial_state (localStorage (saveToStorage demo_state)) [])\<lparr>songs := demo_songs\<rparr>) \<and>
   (\<exists>s'. init localeCompare htmlOther demo_parseSongs demo_parseFavorites (FetchResponse False content)
            (localStorage (saveToStorage demo_state)) [] = Inr s' \<and>
         songs s' = [] \<and> songList s' = [EmptyNoSongs]) \<and>
   (\<exists>s'. init localeCompare htmlOther demo_parseSongs demo_parseFavorites FetchRejected
            (localStorage (saveToStorage demo_state)) [] = Inr s' \<and>
         songs s' = demo_songs)"
proof -
  let ?store = "localStorage (saveToStorage demo_state)"
  have k: "STORAGE_KEY_SONGS \<noteq> STORAGE_KEY_FAVORITES" by (rule keys_differ)
  have f1: "favoritesReadable demo_parseFavorites ?store"
    by (simp add: favoritesReadable_def saveToStorage_def demo_state_def initial_state_def
        demo_parseFavorites_def)
  have s1: "?store STORAGE_KEY_SONGS = Some (json_songs demo_songs)"
    using k by (simp add: saveToStorage_def demo_state_def initial_state_def)
  have s2: "json_songs demo_songs \<noteq> []" by (simp add: json_songs_def json_array_def)
  have s3: "demo_parseSongs (json_songs demo_songs) = Some demo_songs"
    by (simp add: demo_parseSongs_def)
  have s4: "demo_songs \<noteq> []" by (simp add: demo_songs_def)
  have a: "loadCatalog demo_parseSongs (FetchResponse False content) (initial_state ?store []) =
     Inr (initial_state ?store [])"
    by (simp add: loadCatalog_def)
  have b: "loadCatalog demo_parseSongs FetchRejected (initial_state ?store []) =
     Inr ((initial_state ?store [])\<lparr>songs := demo_songs\<rparr>)"
    using s1 s2 s3 by (simp add: loadCatalog_def loadFallback_def initial_state_def)
  from init_after_catalog[OF b f1, of localeCompare htmlOther]
  have d: "\<exists>s'. init localeCompare htmlOther demo_parseSongs demo_parseFavorites FetchRejected
            ?store [] = Inr s' \<and> songs s' = demo_songs"
    by blast
  note e = not_ok_response_no_fallback[OF f1, of localeCompare htmlOther demo_parseSongs content "[]"]
  show ?thesis
    using s1 s3 s4 a b d e by blast
qed



text \<open>
  Claim C9. A toggle of the number \<open>x\<close> is to flip the membership of \<open>x\<close>, store
  the favourites, and update the one button of \<open>x\<close> and the counts, for every number.
  For a plain number it does (\<open>toggleFavorite_plain_effect\<close>). The button is where
  the program fails: \<open>createSongElement\<close> escapes the number for the text of the item
  but writes it as it is into \<open>data-song-id\<close>, and \<open>toggleFavorite\<close> writes it as
  it is into the selector. For the song with the number \<open>x"y\<close> the parser ends the
  attribute at the quote, so the button carries \<open>x\<close>, and the selector
  \<open>[data-song-id="x"y"]\<close> is not valid: \<open>querySelector\<close> throws after the
  favourites were flipped and stored and the counts were written, and the button on the
  page stays unmarked while its song is a favourite.
\<close>

theorem toggleFavorite_quote_throws:
  "songs quote_rendered = [quote_song] \<and>
   map el_song_id (songItems (songList quote_rendered)) = [[120]] \<and>
   map el_number (songItems (songList quote_rendered)) = [number quote_song] \<and>
   selectorFor (number quote_song) = InvalidSelector \<and>
   favorites quote_rendered = [] \<and>
   favorites (toggleFavorite cssOther (number quote_song) quote_rendered) = [number quote_song] \<and>
   localStorage (toggleFavorite cssOther (number quote_song) quote_rendered) STORAGE_KEY_FAVORITES =
     Some (json_strings [number quote_song]) \<and>
   favoriteCount (toggleFavorite cssOther (number quote_song) quote_rendered) = ''1 favorite'' \<and>
   uncaught (toggleFavorite cssOther (number quote_song) quote_rendered) = [DOMSyntaxError] \<and>
   map el_active (songItems (songList (toggleFavorite cssOther (number quote_song) quote_rendered))) =
     [False]"
proof -
  let ?x = "number quote_song"
  let ?t = "toggleFavorite cssOther ?x quote_rendered"
  have sel: "selectorFor ?x = InvalidSelector" by code_simp
  have 1: "songs quote_rendered = [quote_song]"
    "map el_song_id (songItems (songList quote_rendered)) = [[120]]"
    "favorites quote_rendered = []" "uncaught quote_rendered = []"
    "map el_active (songItems (songList quote_rendered)) = [False]"
    by code_simp+
  have 2: "map el_number (songItems (songList quote_rendered)) = [?x]"
    by code_simp
  have 3: "favorites ?t = [?x]"
    using 1 by (simp add: favorites_toggleFavorite)
  have 4: "localStorage ?t STORAGE_KEY_FAVORITES = Some (json_strings [?x])"
    by (simp only: localStorage_toggleFavorite fun_upd_same 3)
  have sn: "show_nat (Suc 0) = ''1''" by code_simp
  have 5: "favoriteCount ?t = ''1 favorite''"
    using counts_toggleFavorite[of cssOther ?x quote_rendered]
    by (simp add: 3 sn del: show_nat.simps)
  have 6: "songList ?t = songList quote_rendered" "uncaught ?t = [DOMSyntaxError]"
    using songList_toggleFavorite_invalid[OF sel, of cssOther quote_rendered] 1 by simp_all
  show ?thesis
    using 1 2 3 4 5 6 sel by simp
qed

text \<open>
  Claim C10. A toggle and a confirmed "clear all" write both stored values: the
  serialization of the whole catalog and the serialization of the favourites. A toggle
  leaves the catalog as it is, so the stored song list after a toggle is the
  serialization of the catalog in memory.
\<close>

theorem persist_rewrites_both_keys:
  "localStorage (toggleFavorite cssOther x s) STORAGE_KEY_SONGS =
     Some (json_songs (songs (toggleFavorite cssOther x s))) \<and>
   localStorage (toggleFavorite cssOther x s) STORAGE_KEY_FAVORITES =
     Some (json_strings (favorites (toggleFavorite cssOther x s))) \<and>
   songs (toggleFavorite cssOther x s) = songs s \<and>
   localStorage (clearAll localeCompare htmlOther True s) STORAGE_KEY_SONGS =
     Some (json_songs (songs (clearAll localeCompare htmlOther True s))) \<and>
   localStorage (clearAll localeCompare htmlOther True s) STORAGE_KEY_FAVORITES =
     Some (json_strings (favorites (clearAll localeCompare htmlOther True s))) \<and>
   songs (clearAll localeCompare htmlOther True s) = [] \<and>
   favorites (clearAll localeCompare htmlOther True s) = []"
proof -
  have k: "STORAGE_KEY_FAVORITES \<noteq> STORAGE_KEY_SONGS" using keys_differ by simp
  have 1: "localStorage (toggleFavorite cssOther x s) STORAGE_KEY_SONGS =
     Some (json_songs (songs (toggleFavorite cssOther x s)))"
    using keys_differ by (simp add: localStorage_toggleFavorite songs_toggleFavorite)
  have 2: "localStorage (toggleFavorite cssOther x s) STORAGE_KEY_FAVORITES =
     Some (json_strings (favorites (toggleFavorite cssOther x s)))"
    by (simp only: localStorage_toggleFavorite fun_upd_same)
  have 3: "localStorage (clearAll localeCompare htmlOther True s) =
      (localStorage s)(STORAGE_KEY_SONGS \<mapsto> json_songs [], STORAGE_KEY_FAVORITES \<mapsto> json_strings [])"
    by (simp add: clearAll_def localStorage_renderSongs saveToStorage_def)
  have 4: "songs (clearAll localeCompare htmlOther True s) = []"
    by (simp add: clearAll_def songs_renderSongs saveToStorage_def)
  have 5: "favorites (clearAll localeCompare htmlOther True s) = []"
    by (simp add: clearAll_def favorites_renderSongs saveToStorage_def)
  show ?thesis
    using 1 2 songs_toggleFavorite[of cssOther x s] keys_differ by (simp add: 3 4 5)
qed

text \<open>
  From an empty storage, a toggle stores the example catalog and the one favourite;
  "clear all" stores two empty arrays.
\<close>

theorem persist_rewrites_both_keys_witness:
  "localStorage (toggleFavorite demo_cssOther ''12'' demo_state) STORAGE_KEY_SONGS = Some (json_songs demo_songs) \<and>
   localStorage (toggleFavorite demo_cssOther ''12'' demo_state) STORAGE_KEY_FAVORITES = Some (json_strings [''12'']) \<and>
   localStorage (clearAll codeUnitCompare demo_htmlOther True demo_state) STORAGE_KEY_SONGS = Some ''[]'' \<and>
   localStorage (clearAll codeUnitCompare demo_htmlOther True demo_state) STORAGE_KEY_FAVORITES = Some ''[]''"
proof -
  have 1: "songs demo_state = demo_songs" "favorites demo_state = []"
    by (simp_all add: demo_state_def initial_state_def)
  have 2: "json_songs [] = ''[]''" "json_strings [] = ''[]''"
    by (simp_all add: json_songs_def json_strings_def json_array_def)
  show ?thesis
    using persist_rewrites_both_keys[of demo_cssOther "''12''" demo_state codeUnitCompare demo_htmlOther] 1 2
    by (simp add: favorites_toggleFavorite)
qed

end
